theory Spec2Isabelle
  imports Complex_Main
begin

section \<open>JavaScript values and the built-ins the code relies on\<close>

text \<open>
  A cell of a parsed row is a JavaScript primitive. Numbers are restricted to the
  integers (the parsers hand over \<open>0\<close> for blank cells and strings for everything else);
  strings are lists of 8-bit characters, and the character classes below are the ASCII
  ones. Objects as cell values (a \<open>Date\<close>, say) are outside the model.
\<close>

datatype jsval = JUndefined | JNull | JBool bool | JNum int | JStr string

text \<open>A row object: \<open>record[col]\<close> of an absent property is \<open>undefined\<close>.\<close>

type_synonym jsrecord = "string \<rightharpoonup> jsval"

definition getField :: "jsrecord \<Rightarrow> string \<Rightarrow> jsval" where
  "getField r c = (case r c of None \<Rightarrow> JUndefined | Some v \<Rightarrow> v)"

fun truthy :: "jsval \<Rightarrow> bool" where
  "truthy JUndefined = False"
| "truthy JNull = False"
| "truthy (JBool b) = b"
| "truthy (JNum n) = (n \<noteq> 0)"
| "truthy (JStr s) = (s \<noteq> [])"

text \<open>\<open>a || b\<close>\<close>

definition orElse :: "jsval \<Rightarrow> jsval \<Rightarrow> jsval" where
  "orElse v d = (if truthy v then v else d)"

fun natToString :: "nat \<Rightarrow> string" where
  "natToString n =
     (if n < 10 then [''0123456789'' ! n]
      else natToString (n div 10) @ [''0123456789'' ! (n mod 10)])"

declare natToString.simps [simp del]

definition numberToString :: "int \<Rightarrow> string" where
  "numberToString i =
     (if i < 0 then CHR ''-'' # natToString (nat (- i)) else natToString (nat i))"

text \<open>\<open>String(v)\<close>\<close>

fun toStringJS :: "jsval \<Rightarrow> string" where
  "toStringJS JUndefined = ''undefined''"
| "toStringJS JNull = ''null''"
| "toStringJS (JBool b) = (if b then ''true'' else ''false'')"
| "toStringJS (JNum n) = numberToString n"
| "toStringJS (JStr s) = s"

definition isSpace :: "char \<Rightarrow> bool" where
  "isSpace c = (c \<in> set [CHR 0x09, CHR 0x0A, CHR 0x0B, CHR 0x0C, CHR 0x0D, CHR 0x20])"

definition isDigit :: "char \<Rightarrow> bool" where
  "isDigit c = (c \<in> set ''0123456789'')"

text \<open>\<open>s.trim()\<close>\<close>

definition trim :: "string \<Rightarrow> string" where
  "trim s = rev (dropWhile isSpace (rev (dropWhile isSpace s)))"

definition toLowerChar :: "char \<Rightarrow> char" where
  "toLowerChar c =
     (case map_of (zip ''ABCDEFGHIJKLMNOPQRSTUVWXYZ'' ''abcdefghijklmnopqrstuvwxyz'') c of
        None \<Rightarrow> c
      | Some l \<Rightarrow> l)"

text \<open>\<open>s.toLowerCase()\<close>\<close>

definition toLowerCase :: "string \<Rightarrow> string" where
  "toLowerCase s = map toLowerChar s"

text \<open>\<open>parts.join(sep)\<close>\<close>

fun joinWith :: "string \<Rightarrow> string list \<Rightarrow> string" where
  "joinWith sep [] = []"
| "joinWith sep [x] = x"
| "joinWith sep (x # y # ys) = x @ sep @ joinWith sep (y # ys)"

text \<open>\<open>s.split(/[...]/)\<close> on a one-character separator class\<close>

fun splitOn :: "(char \<Rightarrow> bool) \<Rightarrow> string \<Rightarrow> string list" where
  "splitOn p [] = [[]]"
| "splitOn p (c # cs) =
     (if p c then [] # splitOn p cs
      else (case splitOn p cs of [] \<Rightarrow> [[c]] | x # xs \<Rightarrow> (c # x) # xs))"

text \<open>\<open>s.includes(t)\<close>\<close>

fun includesStr :: "string \<Rightarrow> string \<Rightarrow> bool" where
  "includesStr [] t = (t = [])"
| "includesStr (c # cs) t = (take (length t) (c # cs) = t \<or> includesStr cs t)"

text \<open>\<open>s.padStart(2, '0')\<close>\<close>

definition padStart2 :: "string \<Rightarrow> string" where
  "padStart2 s = replicate (2 - length s) (CHR ''0'') @ s"

definition digitVal :: "char \<Rightarrow> nat" where
  "digitVal c =
     (case map_of (zip ''0123456789abcdefABCDEF''
                       [0, 1, 2, 3, 4, 5, 6, 7, 8, 9, 10, 11, 12, 13, 14, 15, 10, 11, 12, 13, 14, 15]) c of
        None \<Rightarrow> 0
      | Some d \<Rightarrow> d)"

definition digitsVal :: "int \<Rightarrow> string \<Rightarrow> int" where
  "digitsVal radix ds = foldl (\<lambda>n c. radix * n + int (digitVal c)) 0 ds"

definition isHexDigit :: "char \<Rightarrow> bool" where
  "isHexDigit c = (c \<in> set ''0123456789abcdefABCDEF'')"

text \<open>
  \<open>parseInt(s)\<close> without a radix: leading white space, a sign, an optional \<open>0x\<close>
  prefix, then the longest run of digits; \<open>None\<close> is \<open>NaN\<close>.
\<close>

definition parseInt :: "string \<Rightarrow> int option" where
  "parseInt s =
     (let s1 = dropWhile isSpace s;
          neg = (take 1 s1 = ''-'');
          s2 = (if take 1 s1 = ''-'' \<or> take 1 s1 = ''+'' then drop 1 s1 else s1);
          hex = (take 2 s2 = ''0x'' \<or> take 2 s2 = ''0X'');
          s3 = (if hex then drop 2 s2 else s2);
          ds = takeWhile (if hex then isHexDigit else isDigit) s3
      in if ds = [] then None
         else let v = digitsVal (if hex then 16 else 10) ds
              in Some (if neg then - v else v))"

text \<open>
  A JavaScript number as the arithmetic of index.js meets it: \<open>NaN\<close>, an infinity (the
  flag says that it is the negative one), or a finite IEEE 754 binary64 value, held as the
  rational it denotes. The two zeros are not told apart: nothing below observes the sign
  of a zero.
\<close>

datatype jsfloat = NaN | Infinity bool | Num rat

definition pow10 :: "int \<Rightarrow> rat" where
  "pow10 e = (if 0 \<le> e then 10 ^ nat e else 1 / 10 ^ nat (- e))"

definition pow2 :: "int \<Rightarrow> rat" where
  "pow2 e = (if 0 \<le> e then 2 ^ nat e else 1 / 2 ^ nat (- e))"

text \<open>The number of binary digits of a positive integer.\<close>

function bitLength :: "int \<Rightarrow> int" where
  "bitLength n = (if n \<le> 0 then 0 else 1 + bitLength (n div 2))"
  by pat_completeness auto

termination
  by (relation "measure nat") auto

declare bitLength.simps [simp del]

definition shiftLeft :: "int \<Rightarrow> int \<Rightarrow> int" where
  "shiftLeft x k = x * 2 ^ nat k"

text \<open>The integer nearest to \<open>n / d\<close> (for \<open>0 \<le> n\<close>, \<open>0 < d\<close>), a tie going to the even one.\<close>

definition roundQuotient :: "int \<Rightarrow> int \<Rightarrow> int" where
  "roundQuotient n d =
     (let f = n div d; r = n mod d
      in if 2 * r < d then f
         else if d < 2 * r then f + 1
         else if even f then f else f + 1)"

text \<open>
  The binary64 value of a rational: the rounding to nearest, ties to even, that the value
  of a decimal literal and the exact result of an arithmetic operation undergo. For
  \<open>\<bar>r\<bar> = a / b\<close>, \<open>e\<close> is the exponent of the leading bit (\<open>2 ^ e \<le> a / b < 2 ^ (e + 1)\<close>) and
  \<open>q\<close> the exponent of the last place: 53 significant bits, and never below \<open>- 1074\<close>, the
  last place of the subnormal numbers. \<open>n\<close> is the significand, at most \<open>2 ^ 53\<close>; the result
  \<open>n * 2 ^ q\<close> is an infinity from \<open>2 ^ 1024\<close> on.
\<close>

definition toDouble :: "rat \<Rightarrow> jsfloat" where
  "toDouble r =
     (case quotient_of r of
        (a0, b) \<Rightarrow>
          if a0 = 0 then Num 0
          else let a = \<bar>a0\<bar>;
                   d = bitLength a - bitLength b;
                   e = (if 0 \<le> d then (if shiftLeft b d \<le> a then d else d - 1)
                        else (if b \<le> shiftLeft a (- d) then d else d - 1));
                   q = max (e - 52) (- 1074);
                   n = (if 0 \<le> q then roundQuotient a (shiftLeft b q)
                        else roundQuotient (shiftLeft a (- q)) b)
               in if 971 < q \<or> (q = 971 \<and> n = 9007199254740992) then Infinity (a0 < 0)
                  else Num (of_int (if a0 < 0 then - n else n) * pow2 q))"

text \<open>
  \<open>parseFloat(s)\<close>: leading white space, a sign, then the longest prefix that is a
  decimal literal (digits, optional fraction, optional exponent) or \<open>Infinity\<close>; the
  result is the binary64 value of the literal, correctly rounded.
\<close>

definition parseFloat :: "string \<Rightarrow> jsfloat" where
  "parseFloat s =
     (let s1 = dropWhile isSpace s;
          neg = (take 1 s1 = ''-'');
          s2 = (if take 1 s1 = ''-'' \<or> take 1 s1 = ''+'' then drop 1 s1 else s1);
          ip = takeWhile isDigit s2;
          s3 = dropWhile isDigit s2;
          fp = (if take 1 s3 = ''.'' then takeWhile isDigit (drop 1 s3) else []);
          s4 = (if take 1 s3 = ''.'' then dropWhile isDigit (drop 1 s3) else s3);
          s5 = drop 1 s4;
          eneg = (take 1 s5 = ''-'');
          s6 = (if take 1 s5 = ''-'' \<or> take 1 s5 = ''+'' then drop 1 s5 else s5);
          ep = (if take 1 s4 = ''e'' \<or> take 1 s4 = ''E'' then takeWhile isDigit s6 else []);
          ev = (if eneg then - digitsVal 10 ep else digitsVal 10 ep);
          m = of_int (digitsVal 10 ip) + of_int (digitsVal 10 fp) / 10 ^ length fp;
          v = m * pow10 ev
      in if take 8 s2 = ''Infinity'' then Infinity neg
         else if ip = [] \<and> fp = [] then NaN
         else toDouble (if neg then - v else v))"

text \<open>\<open>a - b\<close> on numbers\<close>

fun floatSub :: "jsfloat \<Rightarrow> jsfloat \<Rightarrow> jsfloat" where
  "floatSub NaN y = NaN"
| "floatSub (Infinity s) NaN = NaN"
| "floatSub (Infinity s) (Infinity t) = (if s = t then NaN else Infinity s)"
| "floatSub (Infinity s) (Num b) = Infinity s"
| "floatSub (Num a) NaN = NaN"
| "floatSub (Num a) (Infinity t) = Infinity (\<not> t)"
| "floatSub (Num a) (Num b) = toDouble (a - b)"

text \<open>\<open>Math.abs(x)\<close>\<close>

fun floatAbs :: "jsfloat \<Rightarrow> jsfloat" where
  "floatAbs NaN = NaN"
| "floatAbs (Infinity s) = Infinity False"
| "floatAbs (Num a) = Num \<bar>a\<bar>"

text \<open>\<open>a <= b\<close> and \<open>a < b\<close> on numbers: false as soon as one side is \<open>NaN\<close>\<close>

fun floatLe :: "jsfloat \<Rightarrow> jsfloat \<Rightarrow> bool" where
  "floatLe NaN y = False"
| "floatLe (Infinity s) NaN = False"
| "floatLe (Infinity s) (Infinity t) = (s \<or> \<not> t)"
| "floatLe (Infinity s) (Num b) = s"
| "floatLe (Num a) NaN = False"
| "floatLe (Num a) (Infinity t) = (\<not> t)"
| "floatLe (Num a) (Num b) = (a \<le> b)"

fun floatLt :: "jsfloat \<Rightarrow> jsfloat \<Rightarrow> bool" where
  "floatLt NaN y = False"
| "floatLt (Infinity s) NaN = False"
| "floatLt (Infinity s) (Infinity t) = (s \<and> \<not> t)"
| "floatLt (Infinity s) (Num b) = s"
| "floatLt (Num a) NaN = False"
| "floatLt (Num a) (Infinity t) = (\<not> t)"
| "floatLt (Num a) (Num b) = (a < b)"

text \<open>\<open>Math.max(a, b)\<close>: \<open>NaN\<close> as soon as one argument is\<close>

definition floatMax :: "jsfloat \<Rightarrow> jsfloat \<Rightarrow> jsfloat" where
  "floatMax a b = (if a = NaN \<or> b = NaN then NaN else if floatLe a b then b else a)"

text \<open>\<open>x || 0\<close> on a number: \<open>NaN\<close> and zero are falsy\<close>

definition floatOrZero :: "jsfloat \<Rightarrow> jsfloat" where
  "floatOrZero x = (if x = NaN \<or> x = Num 0 then Num 0 else x)"

section \<open>reconciliation.js\<close>

text \<open>
  \<open>String(record[col] || '').trim().toLowerCase()\<close>, the comparison text of one cell in
  \<open>createKey\<close> and \<open>findDiscrepancies\<close>.
\<close>

definition cellText :: "jsval \<Rightarrow> string" where
  "cellText v = toLowerCase (trim (toStringJS (orElse v (JStr []))))"

definition createKey :: "jsrecord \<Rightarrow> string list \<Rightarrow> string" where
  "createKey record columns =
     joinWith ''|'' (map (\<lambda>col. cellText (getField record col)) columns)"

record discrepancy =
  field :: string
  gstValue :: jsval
  tallyValue :: jsval

text \<open>The loop runs over \<open>i < Math.min(gstColumns.length, tallyColumns.length)\<close>.\<close>

definition findDiscrepancies ::
  "jsrecord \<Rightarrow> jsrecord \<Rightarrow> string list \<Rightarrow> string list \<Rightarrow> discrepancy list" where
  "findDiscrepancies gstRecord tallyRecord gstColumns tallyColumns =
     concat (map (\<lambda>(gstCol, tallyCol).
        if cellText (getField gstRecord gstCol) \<noteq> cellText (getField tallyRecord tallyCol)
        then [\<lparr>field = gstCol, gstValue = getField gstRecord gstCol,
               tallyValue = getField tallyRecord tallyCol\<rparr>]
        else []) (zip gstColumns tallyColumns))"

datatype matchKind = Exact | Partial

text \<open>
  An entry of \<open>exactMatches\<close> or \<open>partialMatches\<close>. The two indices are the loop
  indices under which the entry was pushed; the JavaScript object holds the records only.
\<close>

record matchEntry =
  gstIndex :: nat
  gstRecord :: jsrecord
  tallyIndex :: nat
  tallyRecord :: jsrecord
  matchType :: matchKind
  discrepancies :: "discrepancy list"

text \<open>
  An entry of \<open>gstMismatches\<close> or \<open>tallyMismatches\<close>: the properties \<open>record\<close>,
  \<open>source\<close> and \<open>type\<close>, and again the loop index under which it was pushed.
\<close>

record mismatchEntry =
  recIndex :: nat
  rec :: jsrecord
  source :: string
  kind :: string

record reconResult =
  exactMatches :: "matchEntry list"
  partialMatches :: "matchEntry list"
  tallyMismatches :: "mismatchEntry list"
  gstMismatches :: "mismatchEntry list"

text \<open>The locals of \<open>reconcileData\<close>: the four result arrays and the two id sets.\<close>

record reconState = reconResult +
  matchedTallyIds :: "nat set"
  matchedGstIds :: "nat set"

text \<open>
  \<open>tallyMap\<close>: under each key the copies \<open>{ ...record, _index: index }\<close> of the Tally
  records with that key, in input order. A copy is kept together with its index, which
  the code reads back from the property \<open>_index\<close>.
\<close>

type_synonym tallyMap = "string \<rightharpoonup> (jsrecord \<times> nat) list"

definition tallyMapAdd :: "string list \<Rightarrow> nat \<times> jsrecord \<Rightarrow> tallyMap \<Rightarrow> tallyMap" where
  "tallyMapAdd tallyColumns = (\<lambda>(index, record) m.
     let key = createKey record tallyColumns;
         m' = (if m key = None then m(key \<mapsto> []) else m)
     in m'(key \<mapsto> the (m' key) @ [(record(''_index'' \<mapsto> JNum (int index)), index)]))"

definition buildTallyMap :: "jsrecord list \<Rightarrow> string list \<Rightarrow> tallyMap" where
  "buildTallyMap tallyData tallyColumns =
     fold (tallyMapAdd tallyColumns) (enumerate 0 tallyData) Map.empty"

definition exactInner :: "nat \<Rightarrow> jsrecord \<Rightarrow> jsrecord \<times> nat \<Rightarrow> reconState \<Rightarrow> reconState" where
  "exactInner gstIdx gstRec = (\<lambda>(tallyRec, tIdx) s.
     if tIdx \<notin> matchedTallyIds s
     then s\<lparr>exactMatches := exactMatches s @
               [\<lparr>gstIndex = gstIdx, gstRecord = gstRec, tallyIndex = tIdx,
                 tallyRecord = tallyRec, matchType = Exact, discrepancies = []\<rparr>],
            matchedTallyIds := insert tIdx (matchedTallyIds s),
            matchedGstIds := insert gstIdx (matchedGstIds s)\<rparr>
     else s)"

definition exactOuter ::
  "tallyMap \<Rightarrow> string list \<Rightarrow> nat \<times> jsrecord \<Rightarrow> reconState \<Rightarrow> reconState" where
  "exactOuter tm gstColumns = (\<lambda>(gstIdx, gstRec) s.
     case tm (createKey gstRec gstColumns) of
       None \<Rightarrow> s
     | Some tallyMatches \<Rightarrow> fold (exactInner gstIdx gstRec) tallyMatches s)"

definition partialInner ::
  "string list \<Rightarrow> string list \<Rightarrow> nat \<Rightarrow> jsrecord \<Rightarrow> nat \<times> jsrecord \<Rightarrow> reconState \<Rightarrow> reconState" where
  "partialInner gstColumns tallyColumns gstIdx gstRec = (\<lambda>(tIdx, tallyRec) s.
     if tIdx \<in> matchedTallyIds s then s
     else let ds = findDiscrepancies gstRec tallyRec gstColumns tallyColumns in
       if length ds > 0 \<and> length ds < length gstColumns
       then s\<lparr>partialMatches := partialMatches s @
                 [\<lparr>gstIndex = gstIdx, gstRecord = gstRec, tallyIndex = tIdx,
                   tallyRecord = tallyRec, matchType = Partial, discrepancies = ds\<rparr>],
              matchedTallyIds := insert tIdx (matchedTallyIds s),
              matchedGstIds := insert gstIdx (matchedGstIds s)\<rparr>
       else s)"

definition partialOuter ::
  "jsrecord list \<Rightarrow> string list \<Rightarrow> string list \<Rightarrow> nat \<times> jsrecord \<Rightarrow> reconState \<Rightarrow> reconState" where
  "partialOuter tallyData gstColumns tallyColumns = (\<lambda>(gstIdx, gstRec) s.
     if gstIdx \<in> matchedGstIds s then s
     else fold (partialInner gstColumns tallyColumns gstIdx gstRec) (enumerate 0 tallyData) s)"

definition gstUnmatched :: "nat \<times> jsrecord \<Rightarrow> reconState \<Rightarrow> reconState" where
  "gstUnmatched = (\<lambda>(gstIdx, gstRec) s.
     if gstIdx \<notin> matchedGstIds s
     then s\<lparr>gstMismatches := gstMismatches s @
              [\<lparr>recIndex = gstIdx, rec = gstRec, source = ''GST'', kind = ''missing_in_tally''\<rparr>]\<rparr>
     else s)"

definition tallyUnmatched :: "nat \<times> jsrecord \<Rightarrow> reconState \<Rightarrow> reconState" where
  "tallyUnmatched = (\<lambda>(tIdx, tallyRec) s.
     if tIdx \<notin> matchedTallyIds s
     then s\<lparr>tallyMismatches := tallyMismatches s @
              [\<lparr>recIndex = tIdx, rec = tallyRec, source = ''Tally'', kind = ''missing_in_gst''\<rparr>]\<rparr>
     else s)"

definition initState :: reconState where
  "initState = \<lparr>exactMatches = [], partialMatches = [], tallyMismatches = [],
                gstMismatches = [], matchedTallyIds = {}, matchedGstIds = {}\<rparr>"

definition exactPass :: "jsrecord list \<Rightarrow> jsrecord list \<Rightarrow> string list \<Rightarrow> string list \<Rightarrow> reconState" where
  "exactPass gstData tallyData gstColumns tallyColumns =
     fold (exactOuter (buildTallyMap tallyData tallyColumns) gstColumns)
          (enumerate 0 gstData) initState"

definition partialPass ::
  "jsrecord list \<Rightarrow> jsrecord list \<Rightarrow> string list \<Rightarrow> string list \<Rightarrow> reconState \<Rightarrow> reconState" where
  "partialPass gstData tallyData gstColumns tallyColumns s =
     fold (partialOuter tallyData gstColumns tallyColumns) (enumerate 0 gstData) s"

definition reconcileData ::
  "jsrecord list \<Rightarrow> jsrecord list \<Rightarrow> string list \<Rightarrow> string list \<Rightarrow> reconResult" where
  "reconcileData gstData tallyData gstColumns tallyColumns =
     (let s1 = exactPass gstData tallyData gstColumns tallyColumns;
          s2 = partialPass gstData tallyData gstColumns tallyColumns s1;
          s3 = fold gstUnmatched (enumerate 0 gstData) s2;
          s4 = fold tallyUnmatched (enumerate 0 tallyData) s3
      in reconResult.truncate s4)"

section \<open>index.js and fileParser.js: value normalisation\<close>

definition normalizeValueForDB :: "jsval \<Rightarrow> jsval" where
  "normalizeValueForDB value =
     (if value = JNull \<or> value = JUndefined \<or> value = JStr [] then JNum 0
      else let strValue = trim (toStringJS value)
           in if strValue = ''-'' then JNum 0 else JStr strValue)"

definition normalizeValue :: "jsval \<Rightarrow> jsval" where
  "normalizeValue value =
     (if value = JNull \<or> value = JUndefined \<or> value = JStr [] then JNum 0
      else let strValue = trim (toStringJS value)
           in if strValue = ''-'' then JNum 0 else JStr strValue)"

section \<open>index.js: date conversion\<close>

text \<open>
  Comparisons of a \<open>parseInt\<close> result with a constant: every comparison with
  \<open>NaN\<close> is false.
\<close>

definition numLess :: "int option \<Rightarrow> int \<Rightarrow> bool" where
  "numLess a b = (case a of None \<Rightarrow> False | Some x \<Rightarrow> x < b)"

definition numGreater :: "int option \<Rightarrow> int \<Rightarrow> bool" where
  "numGreater a b = (case a of None \<Rightarrow> False | Some x \<Rightarrow> b < x)"

definition isValidDate :: "string \<Rightarrow> string \<Rightarrow> string \<Rightarrow> bool" where
  "isValidDate year month day =
     (let y = parseInt year; m = parseInt month; d = parseInt day
      in if numLess m 1 \<or> numGreater m 12 then False
         else if numLess d 1 \<or> numGreater d 31 then False
         else if numLess y 1900 \<or> numGreater y 2100 then False
         else True)"

text \<open>
  Year, month and day of the day that lies \<open>z\<close> days after 1970-01-01 in the proleptic
  Gregorian calendar: what \<open>getFullYear\<close>, \<open>getMonth() + 1\<close> and \<open>getDate\<close> return.
\<close>

definition civilFromDays :: "int \<Rightarrow> int \<times> int \<times> int" where
  "civilFromDays z0 =
     (let z = z0 + 719468;
          era = z div 146097;
          doe = z mod 146097;
          yoe = (doe - doe div 1460 + doe div 36524 - doe div 146096) div 365;
          doy = doe - (365 * yoe + yoe div 4 - yoe div 100);
          mp = (5 * doy + 2) div 153;
          d = doy - (153 * mp + 2) div 5 + 1;
          m = (if mp < 10 then mp + 3 else mp - 9);
          y = yoe + era * 400 + (if m \<le> 2 then 1 else 0)
      in (y, m, d))"

definition millisecondsPerDay :: int where
  "millisecondsPerDay = 24 * 60 * 60 * 1000"

text \<open>
  \<open>new Date(1900, 0, 1).getTime()\<close>. The date is built and read back in local time;
  the model fixes the host's time zone to UTC.
\<close>

definition excelEpoch :: int where
  "excelEpoch = - 2208988800000"

definition truncateToInt :: "rat \<Rightarrow> int" where
  "truncateToInt r = (if 0 \<le> r then \<lfloor>r\<rfloor> else \<lceil>r\<rceil>)"

definition excelSerialToDate :: "jsfloat \<Rightarrow> string option" where
  "excelSerialToDate numSerial =
     (case numSerial of
        NaN \<Rightarrow> None
      | Infinity neg \<Rightarrow> (if neg then None else Some ''NaN-NaN-NaN'')
      | Num r \<Rightarrow>
          if r < 0 then None
          else let adjustedSerial = (if r > 59 then r - 1 else r);
                   t = truncateToInt (of_int excelEpoch
                         + (adjustedSerial - 1) * of_int millisecondsPerDay)
               in if \<bar>t\<bar> > 8640000000000000 then Some ''NaN-NaN-NaN''
                  else (case civilFromDays (t div millisecondsPerDay) of
                          (year, month, day) \<Rightarrow>
                            Some (numberToString year @ ''-'' @ padStart2 (numberToString month)
                                  @ ''-'' @ padStart2 (numberToString day))))"

definition inSerialRange :: "jsfloat \<Rightarrow> bool" where
  "inSerialRange numVal = (case numVal of Num r \<Rightarrow> 30000 < r \<and> r < 50000 | _ \<Rightarrow> False)"

definition isDateSep :: "char \<Rightarrow> bool" where
  "isDateSep c = (c = CHR ''-'' \<or> c = CHR ''/'')"

definition formatParts :: "string \<Rightarrow> string \<Rightarrow> string \<Rightarrow> string option" where
  "formatParts year month day =
     (if isValidDate year month day
      then Some (year @ ''-'' @ padStart2 month @ ''-'' @ padStart2 day)
      else None)"

definition convertToStandardDate :: "jsval \<Rightarrow> string option" where
  "convertToStandardDate value =
     (if truthy value
      then let str = trim (toStringJS value);
               numVal = parseFloat str;
               dateStr = (if inSerialRange numVal then excelSerialToDate numVal else None)
           in (case dateStr of
                 Some d \<Rightarrow> Some d
               | None \<Rightarrow>
                  (case splitOn isDateSep str of
                     [p0, p1, p2] \<Rightarrow>
                       if length p0 = 4 then formatParts p0 p1 p2
                       else if length p2 = 4 then formatParts p2 p1 p0
                       else None
                   | _ \<Rightarrow> None))
      else None)"

section \<open>index.js: the partial matcher of /api/reconcile-mapped-data\<close>

record discrepancyColumn =
  columnIndex :: nat
  gstColumn :: string
  tallyColumn :: string
  gstVal :: string
  tallyVal :: string

text \<open>\<open>/^\d{4}-\d{2}-\d{2}T/.test(s)\<close>\<close>

fun isoTimestamp :: "string \<Rightarrow> bool" where
  "isoTimestamp (y1 # y2 # y3 # y4 # h1 # m1 # m2 # h2 # d1 # d2 # t # rest) =
     (isDigit y1 \<and> isDigit y2 \<and> isDigit y3 \<and> isDigit y4 \<and> h1 = CHR ''-''
      \<and> isDigit m1 \<and> isDigit m2 \<and> h2 = CHR ''-'' \<and> isDigit d1 \<and> isDigit d2
      \<and> t = CHR ''T'')"
| "isoTimestamp _ = False"

text \<open>
  The text of one cell as the loop compares it: \<open>String(row[col] || '').trim()\<close>, cut
  at the first \<open>T\<close> when it looks like an ISO timestamp.
\<close>

definition comparisonText :: "jsrecord \<Rightarrow> string \<Rightarrow> string" where
  "comparisonText row col =
     (let v = trim (toStringJS (orElse (getField row col) (JStr [])))
      in if isoTimestamp v then takeWhile (\<lambda>c. c \<noteq> CHR ''T'') v else v)"

text \<open>
  \<open>tallyColumnNames[i]\<close>: past the end of the array it is \<open>undefined\<close>, which as a
  property key reads \<open>'undefined'\<close>.
\<close>

definition colAt :: "string list \<Rightarrow> nat \<Rightarrow> string" where
  "colAt cols i = (if i < length cols then cols ! i else ''undefined'')"

definition compareStep ::
  "jsrecord \<Rightarrow> jsrecord \<Rightarrow> string list \<Rightarrow> string list \<Rightarrow> nat
     \<Rightarrow> nat \<times> discrepancyColumn list \<Rightarrow> nat \<times> discrepancyColumn list" where
  "compareStep gstRow tallyRow gstColumnNames tallyColumnNames i =
     (\<lambda>(currentDiscrepancies, currentDiscrepancyColumns).
        let gstCol = colAt gstColumnNames i;
            tallyCol = colAt tallyColumnNames i;
            gv = comparisonText gstRow gstCol;
            tv = comparisonText tallyRow tallyCol
        in if gv \<noteq> tv
           then (currentDiscrepancies + 1,
                 currentDiscrepancyColumns @
                   [\<lparr>columnIndex = i, gstColumn = gstCol, tallyColumn = tallyCol,
                     gstVal = gv, tallyVal = tv\<rparr>])
           else (currentDiscrepancies, currentDiscrepancyColumns))"

definition compareRows ::
  "jsrecord \<Rightarrow> jsrecord \<Rightarrow> string list \<Rightarrow> string list \<Rightarrow> nat \<times> discrepancyColumn list" where
  "compareRows gstRow tallyRow gstColumnNames tallyColumnNames =
     fold (compareStep gstRow tallyRow gstColumnNames tallyColumnNames)
          [0 ..< length gstColumnNames] (0, [])"

text \<open>
  The locals \<open>bestMatch\<close>, \<open>bestDiscrepancies\<close> and \<open>discrepancyColumns\<close> of one outer
  iteration.
\<close>

type_synonym bestState = "jsrecord option \<times> nat \<times> discrepancyColumn list"

definition scanStep ::
  "jsrecord \<Rightarrow> string list \<Rightarrow> string list \<Rightarrow> jsval set \<Rightarrow> jsrecord \<Rightarrow> bestState \<Rightarrow> bestState" where
  "scanStep gstRow gstColumnNames tallyColumnNames matchedTally tallyRow =
     (\<lambda>(bestMatch, bestDiscrepancies, discrepancyColumns).
        if getField tallyRow ''id'' \<in> matchedTally
        then (bestMatch, bestDiscrepancies, discrepancyColumns)
        else (case compareRows gstRow tallyRow gstColumnNames tallyColumnNames of
                (currentDiscrepancies, currentDiscrepancyColumns) \<Rightarrow>
                  if currentDiscrepancies \<ge> 1 \<and> currentDiscrepancies \<le> 3
                     \<and> currentDiscrepancies < bestDiscrepancies
                  then (Some tallyRow, currentDiscrepancies, currentDiscrepancyColumns)
                  else (bestMatch, bestDiscrepancies, discrepancyColumns)))"

definition findBest ::
  "jsrecord \<Rightarrow> jsrecord list \<Rightarrow> string list \<Rightarrow> string list \<Rightarrow> jsval set \<Rightarrow> bestState" where
  "findBest gstRow tallyData gstColumnNames tallyColumnNames matchedTally =
     fold (scanStep gstRow gstColumnNames tallyColumnNames matchedTally) tallyData
          (None, 999, [])"

definition taxColumns :: "string list" where
  "taxColumns = [''taxable_value'', ''col_taxable_value'', ''igst'', ''col_igst'', ''cgst'',
     ''col_cgst'', ''sgst'', ''col_sgst'', ''integrated_tax'', ''col_integrated_tax'',
     ''central_tax'', ''col_central_tax'', ''state_ut_tax'', ''col_state_ut_tax'']"

definition isTaxColumn :: "string \<Rightarrow> bool" where
  "isTaxColumn name = list_ex (\<lambda>tc. includesStr (toLowerCase name) tc) taxColumns"

text \<open>
  The characters that \<open>replace(/[^0-9.-]/g, '')\<close> keeps.
\<close>

definition isAmountChar :: "char \<Rightarrow> bool" where
  "isAmountChar c = (isDigit c \<or> c = CHR ''.'' \<or> c = CHR ''-'')"

text \<open>\<open>parseFloat(String(v).replace(/[^0-9.-]/g, '')) || 0\<close>\<close>

definition moneyOf :: "string \<Rightarrow> jsfloat" where
  "moneyOf v = floatOrZero (parseFloat (filter isAmountChar v))"

text \<open>
  The body of \<open>discrepancyColumns.forEach\<close>, on the locals \<open>hasLargeDiscrepancy\<close> and
  \<open>maxDiscrepancy\<close>.
\<close>

definition severityStep :: "discrepancyColumn \<Rightarrow> bool \<times> jsfloat \<Rightarrow> bool \<times> jsfloat" where
  "severityStep disc = (\<lambda>(hasLargeDiscrepancy, maxDiscrepancy).
     if isTaxColumn (gstColumn disc)
     then let gstNum = moneyOf (gstVal disc);
              tallyNum = moneyOf (tallyVal disc);
              diff = floatAbs (floatSub gstNum tallyNum)
          in (if floatLe (Num 1) diff then True else hasLargeDiscrepancy,
              floatMax maxDiscrepancy diff)
     else (hasLargeDiscrepancy, maxDiscrepancy))"

record partialMatch =
  gst :: jsrecord
  tally :: jsrecord
  discrepancies :: nat
  discrepancyColumns :: "discrepancyColumn list"
  maxDiscrepancy :: jsfloat
  isMinor :: bool

definition classify :: "jsrecord \<Rightarrow> jsrecord \<Rightarrow> nat \<Rightarrow> discrepancyColumn list \<Rightarrow> partialMatch" where
  "classify gstRow best bestDiscrepancies cols =
     (case fold severityStep cols (False, Num 0) of
        (hasLargeDiscrepancy, maxD) \<Rightarrow>
          \<lparr>gst = gstRow, tally = best, discrepancies = bestDiscrepancies,
            discrepancyColumns = cols, maxDiscrepancy = maxD,
            isMinor = (\<not> hasLargeDiscrepancy \<and> floatLt (Num 0) maxD)\<rparr>)"

text \<open>
  The state of the outer loop: \<open>partialMatches\<close>, \<open>matchedGstIds\<close> and
  \<open>matchedTallyIds\<close> (sets of row ids).
\<close>

type_synonym routeState = "partialMatch list \<times> jsval set \<times> jsval set"

definition routeStep ::
  "jsrecord list \<Rightarrow> string list \<Rightarrow> string list \<Rightarrow> jsrecord \<Rightarrow> routeState \<Rightarrow> routeState" where
  "routeStep tallyData gstColumnNames tallyColumnNames gstRow =
     (\<lambda>(pms, matchedGst, matchedTally).
        if getField gstRow ''id'' \<in> matchedGst then (pms, matchedGst, matchedTally)
        else (case findBest gstRow tallyData gstColumnNames tallyColumnNames matchedTally of
                (None, bestDiscrepancies, cols) \<Rightarrow> (pms, matchedGst, matchedTally)
              | (Some best, bestDiscrepancies, cols) \<Rightarrow>
                  if bestDiscrepancies \<le> 3
                  then (pms @ [classify gstRow best bestDiscrepancies cols],
                        insert (getField gstRow ''id'') matchedGst,
                        insert (getField best ''id'') matchedTally)
                  else (pms, matchedGst, matchedTally)))"

text \<open>
  Seeding the id sets from \<open>formattedExactMatches\<close>, the pairs of rows the SQL
  \<open>INTERSECT\<close> stage has found.
\<close>

definition trackExact :: "jsrecord \<times> jsrecord \<Rightarrow> jsval set \<times> jsval set \<Rightarrow> jsval set \<times> jsval set" where
  "trackExact = (\<lambda>(g, t) (matchedGst, matchedTally).
     ((if truthy (getField g ''id'') then insert (getField g ''id'') matchedGst else matchedGst),
      (if truthy (getField t ''id'') then insert (getField t ''id'') matchedTally
       else matchedTally)))"

definition routePartial ::
  "(jsrecord \<times> jsrecord) list \<Rightarrow> jsrecord list \<Rightarrow> jsrecord list \<Rightarrow> string list \<Rightarrow> string list
     \<Rightarrow> routeState" where
  "routePartial formattedExactMatches gstData tallyData gstColumnNames tallyColumnNames =
     (case fold trackExact formattedExactMatches ({}, {}) of
        (matchedGst, matchedTally) \<Rightarrow>
          fold (routeStep tallyData gstColumnNames tallyColumnNames) gstData
               ([], matchedGst, matchedTally))"

section \<open>index.js: the mapped tables and the SQL exact match\<close>

text \<open>
  \<open>storeMappedData\<close> keeps the pairs of the mapping in which both column names are
  truthy, each with its position plus one as \<open>featureNum\<close>. A GST column past the end of
  \<open>tallyCols\<close> has \<open>tallyCols[idx]\<close> undefined and is dropped, which is what \<open>zip\<close> does.
\<close>

definition validMappings :: "string list \<Rightarrow> string list \<Rightarrow> (string \<times> string \<times> nat) list" where
  "validMappings gstCols tallyCols =
     filter (\<lambda>(gstCol, tallyCol, featureNum). gstCol \<noteq> [] \<and> tallyCol \<noteq> [])
       (map (\<lambda>(idx, gstCol, tallyCol). (gstCol, tallyCol, idx + 1))
          (enumerate 0 (zip gstCols tallyCols)))"

text \<open>
  The text that an \<open>INSERT\<close> of \<open>storeMappedData\<close> leaves in a feature column (all of them
  are \<open>TEXT\<close>): \<open>normalizeValueForDB(row[col] || null)\<close>, the number 0 arriving as \<open>'0'\<close>.
\<close>

definition storedText :: "jsval \<Rightarrow> string" where
  "storedText v = toStringJS (normalizeValueForDB (orElse v JNull))"

text \<open>The feature columns of the row stored for a GST record and for a Tally record.\<close>

definition gstFeatures :: "(string \<times> string \<times> nat) list \<Rightarrow> jsrecord \<Rightarrow> string list" where
  "gstFeatures mappings row =
     map (\<lambda>(gstCol, tallyCol, featureNum). storedText (getField row gstCol)) mappings"

definition tallyFeatures :: "(string \<times> string \<times> nat) list \<Rightarrow> jsrecord \<Rightarrow> string list" where
  "tallyFeatures mappings row =
     map (\<lambda>(gstCol, tallyCol, featureNum). storedText (getField row tallyCol)) mappings"

text \<open>
  The exact-match query of \<open>performSQLReconciliation\<close> over the tables that
  \<open>storeMappedData\<close> has filled:
  \<open>g INNER JOIN t ON g.feature1 = t.feature1 AND ... AND g.featureN = t.featureN\<close> with
  \<open>N = validCount\<close>, the number of valid pairs. The select list, which names the
  feature columns without a table qualifier, is left aside: the result is given as the
  pairs of positions of the rows that the \<open>ON\<close> condition joins, GST rows outermost.
  \<open>None\<close> stands for the two ways in which no result comes back: \<open>storeMappedData\<close> throws when no pair is valid, and the
  query names a column that the tables lack when the \<open>featureNum\<close>s of the valid pairs
  are not \<open>1, ..., N\<close>. Equality on \<open>TEXT\<close> is equality of the texts.
\<close>

definition innerJoinExact ::
  "jsrecord list \<Rightarrow> jsrecord list \<Rightarrow> string list \<Rightarrow> string list \<Rightarrow> (nat \<times> nat) list option" where
  "innerJoinExact gstData tallyData gstCols tallyCols =
     (let mappings = validMappings gstCols tallyCols;
          validCount = length mappings
      in if mappings = [] then None
         else if map (\<lambda>(gstCol, tallyCol, featureNum). featureNum) mappings
                   \<noteq> [1 ..< validCount + 1] then None
         else Some (concat (map (\<lambda>(i, g).
                 map (\<lambda>(j, t). (i, j))
                   (filter (\<lambda>(j, t). gstFeatures mappings g = tallyFeatures mappings t)
                      (enumerate 0 tallyData)))
               (enumerate 0 gstData))))"


section \<open>Notions used to state the properties\<close>

text \<open>An entry of \<open>reconcileData\<close>'s partial matches: at least one discrepancy, fewer than
  there are GST columns.\<close>

definition withinColumns :: "string list \<Rightarrow> matchEntry \<Rightarrow> bool" where
  "withinColumns gc m = (1 \<le> length (matchEntry.discrepancies m) \<and> length (matchEntry.discrepancies m) < length gc)"

text \<open>
  For the matcher of index.js: the discrepancy count of a Tally row against a GST row, the
  rows that are candidates (not consumed, count within the budget of 3), and the first
  element of a list on which a measure is least.
\<close>

definition countOf :: "jsrecord \<Rightarrow> string list \<Rightarrow> string list \<Rightarrow> jsrecord \<Rightarrow> nat" where
  "countOf gstRow gstColumnNames tallyColumnNames tallyRow =
     fst (compareRows gstRow tallyRow gstColumnNames tallyColumnNames)"

definition isCandidate ::
  "jsrecord \<Rightarrow> string list \<Rightarrow> string list \<Rightarrow> jsval set \<Rightarrow> jsrecord \<Rightarrow> bool" where
  "isCandidate gstRow gstColumnNames tallyColumnNames matchedTally tallyRow =
     (getField tallyRow ''id'' \<notin> matchedTally
      \<and> 1 \<le> countOf gstRow gstColumnNames tallyColumnNames tallyRow
      \<and> countOf gstRow gstColumnNames tallyColumnNames tallyRow \<le> 3)"

fun firstMinimal :: "('a \<Rightarrow> nat) \<Rightarrow> 'a list \<Rightarrow> 'a option" where
  "firstMinimal f [] = None"
| "firstMinimal f (x # xs) =
     (case firstMinimal f xs of
        None \<Rightarrow> Some x
      | Some m \<Rightarrow> if f x \<le> f m then Some x else Some m)"

definition withinBudget :: "partialMatch \<Rightarrow> bool" where
  "withinBudget pm = (1 \<le> discrepancies pm \<and> discrepancies pm \<le> 3
      \<and> discrepancies pm = length (discrepancyColumns pm))"

text \<open>
  The absolute differences of the two amounts over the discrepancies in tax columns, and
  the entries that \<open>classify\<close> has built.
\<close>

definition monetaryDeltas :: "discrepancyColumn list \<Rightarrow> jsfloat list" where
  "monetaryDeltas cols =
     map (\<lambda>d. floatAbs (floatSub (moneyOf (gstVal d)) (moneyOf (tallyVal d))))
         (filter (\<lambda>d. isTaxColumn (gstColumn d)) cols)"

definition classified :: "partialMatch \<Rightarrow> bool" where
  "classified pm =
     (pm = classify (gst pm) (tally pm) (discrepancies pm) (discrepancyColumns pm))"











section \<open>Example inputs\<close>

definition invoiceCols :: "string list" where
  "invoiceCols = [''Invoice No'', ''Amount'']"

definition invoiceRow :: "string \<Rightarrow> string \<Rightarrow> jsrecord" where
  "invoiceRow no amount = [''Invoice No'' \<mapsto> JStr no, ''Amount'' \<mapsto> JStr amount]"

definition fiveCols :: "string list" where
  "fiveCols = [''a'', ''b'', ''c'', ''d'', ''e'']"

definition fiveRow :: "string \<Rightarrow> string \<Rightarrow> string \<Rightarrow> string \<Rightarrow> string \<Rightarrow> jsrecord" where
  "fiveRow a b c d e =
     [''a'' \<mapsto> JStr a, ''b'' \<mapsto> JStr b, ''c'' \<mapsto> JStr c, ''d'' \<mapsto> JStr d, ''e'' \<mapsto> JStr e]"

definition mappedCols :: "string list" where
  "mappedCols = [''invoice_no'', ''taxable_value'']"

definition mappedRow :: "int \<Rightarrow> string \<Rightarrow> string \<Rightarrow> jsrecord" where
  "mappedRow i no amount =
     [''id'' \<mapsto> JNum i, ''invoice_no'' \<mapsto> JStr no, ''taxable_value'' \<mapsto> JStr amount]"

section \<open>Comparison text of falsy cells\<close>

lemma cellText_falsy: "\<not> truthy v \<Longrightarrow> cellText v = []"
  by (simp add: cellText_def orElse_def trim_def toLowerCase_def)

lemma cellText_string0: "cellText (JStr ''0'') = ''0''"
  by code_simp

lemma findDiscrepancies_single:
  "findDiscrepancies g t [gc] [tc] = [] \<longleftrightarrow> cellText (getField g gc) = cellText (getField t tc)"
  by (simp add: findDiscrepancies_def)

lemma createKey_single: "createKey r [c] = cellText (getField r c)"
  by (simp add: createKey_def)

text \<open>
  Claim C10. In key building and discrepancy counting a falsy cell (\<open>undefined\<close>,
  \<open>null\<close>, the number 0, the empty string, \<open>false\<close>) is replaced by the empty string
  before trimming and lower-casing. So a cell holding the number 0 compares equal to a
  missing or \<open>null\<close> cell, for every pair of records and every mapped column, while a
  cell holding the string \<open>0\<close> compares equal to no falsy cell.
\<close>

theorem falsy_cells_compare_as_empty:
  "(\<not> truthy v \<longleftrightarrow> v \<in> {JUndefined, JNull, JNum 0, JStr [], JBool False})
   \<and> (\<not> truthy v \<longrightarrow> cellText v = [])
   \<and> (getField g gc = JNum 0 \<and> (t tc = None \<or> t tc = Some JNull)
        \<longrightarrow> cellText (getField g gc) = cellText (getField t tc)
            \<and> findDiscrepancies g t [gc] [tc] = []
            \<and> createKey g [gc] = createKey t [tc])
   \<and> (getField g gc = JStr ''0'' \<and> \<not> truthy (getField t tc)
        \<longrightarrow> cellText (getField g gc) \<noteq> cellText (getField t tc)
            \<and> findDiscrepancies g t [gc] [tc] \<noteq> []
            \<and> createKey g [gc] \<noteq> createKey t [tc])"
proof -
  have a: "\<not> truthy v \<longleftrightarrow> v \<in> {JUndefined, JNull, JNum 0, JStr [], JBool False}"
    by (cases v) auto
  have b: "\<not> truthy v \<longrightarrow> cellText v = []"
    by (simp add: cellText_falsy)
  have c: "getField g gc = JNum 0 \<and> (t tc = None \<or> t tc = Some JNull)
        \<longrightarrow> cellText (getField g gc) = cellText (getField t tc)
            \<and> findDiscrepancies g t [gc] [tc] = []
            \<and> createKey g [gc] = createKey t [tc]"
  proof
    assume h: "getField g gc = JNum 0 \<and> (t tc = None \<or> t tc = Some JNull)"
    then have "\<not> truthy (getField t tc)"
      by (auto simp: getField_def)
    then have "cellText (getField t tc) = []"
      by (rule cellText_falsy)
    moreover have "cellText (getField g gc) = []"
      using h by (simp add: cellText_falsy)
    ultimately show "cellText (getField g gc) = cellText (getField t tc)
            \<and> findDiscrepancies g t [gc] [tc] = []
            \<and> createKey g [gc] = createKey t [tc]"
      by (simp add: findDiscrepancies_single createKey_single)
  qed
  have d: "getField g gc = JStr ''0'' \<and> \<not> truthy (getField t tc)
        \<longrightarrow> cellText (getField g gc) \<noteq> cellText (getField t tc)
            \<and> findDiscrepancies g t [gc] [tc] \<noteq> []
            \<and> createKey g [gc] \<noteq> createKey t [tc]"
  proof
    assume h: "getField g gc = JStr ''0'' \<and> \<not> truthy (getField t tc)"
    then have "cellText (getField t tc) = []"
      by (simp add: cellText_falsy)
    moreover have "cellText (getField g gc) = ''0''"
      using h by (simp add: cellText_string0)
    ultimately show "cellText (getField g gc) \<noteq> cellText (getField t tc)
            \<and> findDiscrepancies g t [gc] [tc] \<noteq> []
            \<and> createKey g [gc] \<noteq> createKey t [tc]"
      by (simp add: findDiscrepancies_single createKey_single)
  qed
  from a b c d show ?thesis by blast
qed

theorem falsy_cells_compare_as_empty_witness:
  "cellText (JNum 0) = []
   \<and> createKey [''Amount'' \<mapsto> JNum 0] [''Amount''] = createKey Map.empty [''Amt'']
   \<and> findDiscrepancies [''Amount'' \<mapsto> JNum 0] [''Amt'' \<mapsto> JNull] [''Amount''] [''Amt''] = []
   \<and> createKey [''Amount'' \<mapsto> JStr ''0''] [''Amount''] \<noteq> createKey [''Amt'' \<mapsto> JNum 0] [''Amt'']"
proof -
  have 1: "cellText (JNum 0) = []"
    using falsy_cells_compare_as_empty [of "JNum 0"] by simp
  have 2: "createKey [''Amount'' \<mapsto> JNum 0] [''Amount''] = createKey Map.empty [''Amt'']"
    using falsy_cells_compare_as_empty [of _ "[''Amount'' \<mapsto> JNum 0]" "''Amount''" "Map.empty" "''Amt''"]
    by (simp add: getField_def)
  have 3: "findDiscrepancies [''Amount'' \<mapsto> JNum 0] [''Amt'' \<mapsto> JNull] [''Amount''] [''Amt''] = []"
    using falsy_cells_compare_as_empty [of _ "[''Amount'' \<mapsto> JNum 0]" "''Amount''" "[''Amt'' \<mapsto> JNull]" "''Amt''"]
    by (simp add: getField_def)
  have 4: "createKey [''Amount'' \<mapsto> JStr ''0''] [''Amount''] \<noteq> createKey [''Amt'' \<mapsto> JNum 0] [''Amt'']"
    using falsy_cells_compare_as_empty [of _ "[''Amount'' \<mapsto> JStr ''0'']" "''Amount''" "[''Amt'' \<mapsto> JNum 0]" "''Amt''"]
    by (simp add: getField_def)
  from 1 2 3 4 show ?thesis by blast
qed

section \<open>reconcileData on duplicate keys\<close>

text \<open>
  Claim C1. Two GST rows and two Tally rows that all share one key: the claim expects two
  exact pairs (row 0 with row 0, row 1 with row 1) and nothing left over. The exact pass
  pairs GST row 0 with both Tally rows, and GST row 1 ends in \<open>gstMismatches\<close>.
\<close>

theorem exact_pass_duplicate_keys:
  "map (\<lambda>m. (gstIndex m, tallyIndex m))
     (exactMatches (reconcileData
        [invoiceRow ''INV1'' ''100'', invoiceRow ''INV1'' ''100'']
        [invoiceRow ''INV1'' ''100'', invoiceRow ''INV1'' ''100''] invoiceCols invoiceCols))
     = [(0, 0), (0, 1)]
   \<and> map recIndex
     (gstMismatches (reconcileData
        [invoiceRow ''INV1'' ''100'', invoiceRow ''INV1'' ''100'']
        [invoiceRow ''INV1'' ''100'', invoiceRow ''INV1'' ''100''] invoiceCols invoiceCols))
     = [1]"
  by code_simp

text \<open>
  Claim C2. One GST row and two Tally rows with its key: three records go in, the four
  buckets hold two exact matches and nothing else, so the weighted count is 4, not 3.
\<close>

theorem totality_fails_on_duplicate_tally_key:
  "(let r = reconcileData [invoiceRow ''INV1'' ''100'']
              [invoiceRow ''INV1'' ''100'', invoiceRow ''INV1'' ''100''] invoiceCols invoiceCols
    in (length (exactMatches r) * 2 + length (partialMatches r) * 2
          + length (gstMismatches r) + length (tallyMismatches r),
        length [invoiceRow ''INV1'' ''100'']
          + length [invoiceRow ''INV1'' ''100'', invoiceRow ''INV1'' ''100'']))
     = (4, 3)"
  by code_simp

text \<open>
  Claim C3. GST record 0 takes part in two entries of the same bucket: in two exact
  matches when two Tally rows carry its key, and in two partial matches when two Tally
  rows each differ from it in one of two columns.
\<close>

theorem gst_record_in_two_entries:
  "map (\<lambda>m. (gstIndex m, tallyIndex m))
     (exactMatches (reconcileData [invoiceRow ''INV1'' ''100'']
        [invoiceRow ''INV1'' ''100'', invoiceRow ''INV1'' ''100''] invoiceCols invoiceCols))
     = [(0, 0), (0, 1)]
   \<and> map (\<lambda>m. (gstIndex m, tallyIndex m))
     (partialMatches (reconcileData [invoiceRow ''INV1'' ''100'']
        [invoiceRow ''INV1'' ''150'', invoiceRow ''INV1'' ''175''] invoiceCols invoiceCols))
     = [(0, 0), (0, 1)]"
  by code_simp

section \<open>Normalisation and date conversion\<close>

text \<open>
  Claim C8, as stated, fails: a placeholder becomes the number 0, and the number 0 is
  not a placeholder, so the second pass returns its string form.
\<close>

theorem normalize_null_twice_counterexample:
  "normalizeValue JNull = JNum 0
   \<and> normalizeValue (normalizeValue JNull) = JStr ''0''
   \<and> normalizeValue (normalizeValue JNull) \<noteq> normalizeValue JNull"
  by code_simp

lemma trim_idem: "trim (trim s) = trim s"
proof -
  let ?a = "dropWhile isSpace s"
  let ?b = "dropWhile isSpace (rev ?a)"
  have keep: "dropWhile isSpace (rev ?b) = rev ?b"
  proof (cases "?b = []")
    case True
    show ?thesis
      unfolding True by simp
  next
    case False
    have ne: "?a \<noteq> []"
    proof
      assume e: "?a = []"
      have "?b = []"
        unfolding e by simp
      with False show False by contradiction
    qed
    have "rev ?a = takeWhile isSpace (rev ?a) @ ?b"
      by simp
    then have "last (rev ?a) = last ?b"
      using False by (metis last_appendR)
    then have "last ?b = hd ?a"
      using ne by (simp add: last_rev)
    moreover have "\<not> isSpace (hd ?a)"
      using ne by (rule hd_dropWhile)
    ultimately have "\<not> isSpace (hd (rev ?b))"
      using False by (simp add: hd_rev)
    then show ?thesis
      by (simp add: dropWhile_eq_self_iff)
  qed
  have "trim (trim s) = rev (dropWhile isSpace (rev (dropWhile isSpace (rev ?b))))"
    by (simp add: trim_def)
  also have "\<dots> = rev (dropWhile isSpace ?b)"
    by (simp add: keep)
  also have "\<dots> = rev ?b"
    by simp
  finally show ?thesis
    by (simp add: trim_def)
qed

lemma normalizeValue_string_fixed:
  assumes "normalizeValue x = JStr s" and "s \<noteq> []"
  shows "normalizeValue (JStr s) = JStr s"
proof -
  from assms(1) have s: "s = trim (toStringJS x)" and d: "s \<noteq> ''-''"
    by (auto simp: normalizeValue_def Let_def split: if_splits)
  have "trim s = s"
    by (simp add: s trim_idem)
  with assms(2) d show ?thesis
    by (simp add: normalizeValue_def Let_def)
qed

lemma normalizeValue_zero: "normalizeValue (JNum 0) = JStr ''0''"
  by code_simp

lemma normalizeValue_range:
  "normalizeValue x = JNum 0 \<or> (\<exists>s. normalizeValue x = JStr s)"
  by (simp add: normalizeValue_def Let_def)

lemma normalizeValueForDB_eq: "normalizeValueForDB x = normalizeValue x"
  by (simp add: normalizeValueForDB_def normalizeValue_def)

text \<open>
  Claim C8, amended. Normalisation is idempotent on every value that it maps to a
  non-empty string. On a value that it maps to the number 0 (\<open>null\<close>, \<open>undefined\<close>, the
  empty string, \<open>-\<close>) the second pass returns the string \<open>0\<close>, which is the same text.
  Both copies of the function behave so.
\<close>

theorem normalize_idempotent_on_strings:
  "(normalizeValue x = JStr s \<and> s \<noteq> []
      \<longrightarrow> normalizeValue (normalizeValue x) = normalizeValue x)
   \<and> (normalizeValue x = JNum 0
      \<longrightarrow> normalizeValue (normalizeValue x) = JStr ''0''
          \<and> toStringJS (normalizeValue (normalizeValue x)) = toStringJS (normalizeValue x))
   \<and> (normalizeValueForDB x = JStr s \<and> s \<noteq> []
      \<longrightarrow> normalizeValueForDB (normalizeValueForDB x) = normalizeValueForDB x)
   \<and> (normalizeValueForDB x = JNum 0
      \<longrightarrow> normalizeValueForDB (normalizeValueForDB x) = JStr ''0''
          \<and> toStringJS (normalizeValueForDB (normalizeValueForDB x))
              = toStringJS (normalizeValueForDB x))"
proof -
  have a: "normalizeValue x = JStr s \<and> s \<noteq> []
      \<longrightarrow> normalizeValue (normalizeValue x) = normalizeValue x"
    using normalizeValue_string_fixed [of x s] by auto
  have z: "toStringJS (JNum 0) = ''0''"
    by code_simp
  have b: "normalizeValue x = JNum 0
      \<longrightarrow> normalizeValue (normalizeValue x) = JStr ''0''
          \<and> toStringJS (normalizeValue (normalizeValue x)) = toStringJS (normalizeValue x)"
    using z by (auto simp: normalizeValue_zero)
  from a b show ?thesis
    by (simp only: normalizeValueForDB_eq)
qed

theorem normalize_idempotent_on_strings_witness:
  "normalizeValue (normalizeValue (JStr '' 25-26/0001 '')) = normalizeValue (JStr '' 25-26/0001 '')
   \<and> normalizeValueForDB (normalizeValueForDB (JStr ''-'')) = JStr ''0''"
proof -
  have 1: "normalizeValue (JStr '' 25-26/0001 '') = JStr ''25-26/0001''"
    by code_simp
  have 2: "normalizeValueForDB (JStr ''-'') = JNum 0"
    by code_simp
  from normalize_idempotent_on_strings [of "JStr '' 25-26/0001 ''" "''25-26/0001''"] 1
  have a: "normalizeValue (normalizeValue (JStr '' 25-26/0001 '')) = normalizeValue (JStr '' 25-26/0001 '')"
    by simp
  from normalize_idempotent_on_strings [of "JStr ''-''" "[]"] 2
  have b: "normalizeValueForDB (normalizeValueForDB (JStr ''-'')) = JStr ''0''"
    by simp
  from a b show ?thesis ..
qed

text \<open>
  A string of white space is outside both cases: the test for the empty string comes
  before the trim, so such a cell becomes the empty string, and the empty string becomes
  0 on the second pass.
\<close>

lemma normalize_blank_twice:
  "normalizeValue (JStr '' '') = JStr []
   \<and> normalizeValue (normalizeValue (JStr '' '')) = JNum 0
   \<and> normalizeValueForDB (JStr '' '') = JStr []
   \<and> normalizeValueForDB (normalizeValueForDB (JStr '' '')) = JNum 0"
  by code_simp

lemma convertToStandardDate_examples:
  "convertToStandardDate (JStr ''15/01/2024'') = Some ''2024-01-15''
   \<and> convertToStandardDate (JStr ''2024-01-15'') = Some ''2024-01-15''
   \<and> convertToStandardDate (JStr ''45000'') = Some ''2023-03-15''
   \<and> convertToStandardDate (JStr ''2024-13-15'') = None"
  by code_simp

text \<open>
  Claim C9. A month that is not a number passes the validation: \<open>parseInt\<close> gives
  \<open>NaN\<close>, and both \<open>month < 1\<close> and \<open>month > 12\<close> are false for \<open>NaN\<close>. The value
  comes back reassembled instead of \<open>null\<close>.
\<close>

theorem convertToStandardDate_accepts_non_numeric_month:
  "convertToStandardDate (JStr ''2024-Jan-15'') = Some ''2024-Jan-15''"
  by code_simp

section \<open>Loop invariants\<close>

lemma fold_invariant:
  assumes "I s" and "\<And>x s. x \<in> set xs \<Longrightarrow> I s \<Longrightarrow> I (f x s)"
  shows "I (fold f xs s)"
  using assms by (induction xs arbitrary: s) auto

lemma exactInner_partialMatches: "partialMatches (exactInner i g x s) = partialMatches s"
  by (cases x) (simp add: exactInner_def)

lemma exactOuter_partialMatches: "partialMatches (exactOuter tm gc x s) = partialMatches s"
proof (cases x)
  case (Pair i g)
  show ?thesis
  proof (cases "tm (createKey g gc)")
    case None
    with Pair show ?thesis by (simp add: exactOuter_def)
  next
    case (Some ms)
    have "partialMatches (fold (exactInner i g) ms s) = partialMatches s"
      by (rule fold_invariant [where I = "\<lambda>s'. partialMatches s' = partialMatches s"])
         (simp_all add: exactInner_partialMatches)
    with Pair Some show ?thesis by (simp add: exactOuter_def)
  qed
qed

lemma exactPass_partialMatches: "partialMatches (exactPass G T gc tc) = []"
  unfolding exactPass_def
  by (rule fold_invariant [where I = "\<lambda>s'. partialMatches s' = []"])
     (simp_all add: exactOuter_partialMatches initState_def)

lemma partialInner_bound:
  "list_all (withinColumns gc) (partialMatches s) \<Longrightarrow>
   list_all (withinColumns gc) (partialMatches (partialInner gc tc i g x s))"
  by (cases x) (auto simp: partialInner_def Let_def Suc_le_eq withinColumns_def)

lemma partialOuter_bound:
  assumes "list_all (withinColumns gc) (partialMatches s)"
  shows "list_all (withinColumns gc) (partialMatches (partialOuter T gc tc x s))"
proof (cases x)
  case (Pair i g)
  have "list_all (withinColumns gc) (partialMatches (fold (partialInner gc tc i g) (enumerate 0 T) s))"
    by (rule fold_invariant [where I = "\<lambda>s'. list_all (withinColumns gc) (partialMatches s')"])
       (simp_all add: assms partialInner_bound)
  with Pair assms show ?thesis by (simp add: partialOuter_def)
qed

lemma partialPass_bound:
  assumes "list_all (withinColumns gc) (partialMatches s)"
  shows "list_all (withinColumns gc) (partialMatches (partialPass G T gc tc s))"
  unfolding partialPass_def
  by (rule fold_invariant [where I = "\<lambda>s'. list_all (withinColumns gc) (partialMatches s')"])
     (simp_all add: assms partialOuter_bound)

lemma gstUnmatched_partialMatches: "partialMatches (fold gstUnmatched xs s) = partialMatches s"
  by (rule fold_invariant [where I = "\<lambda>s'. partialMatches s' = partialMatches s"])
     (auto simp: gstUnmatched_def)

lemma tallyUnmatched_partialMatches: "partialMatches (fold tallyUnmatched xs s) = partialMatches s"
  by (rule fold_invariant [where I = "\<lambda>s'. partialMatches s' = partialMatches s"])
     (auto simp: tallyUnmatched_def)

lemma reconcileData_partialMatches:
  "partialMatches (reconcileData G T gc tc) = partialMatches (partialPass G T gc tc (exactPass G T gc tc))"
  by (simp add: reconcileData_def Let_def reconResult.truncate_def
        gstUnmatched_partialMatches tallyUnmatched_partialMatches)

lemma reconcileData_partial_bound:
  "list_all (withinColumns gc) (partialMatches (reconcileData G T gc tc))"
  by (simp add: reconcileData_partialMatches partialPass_bound exactPass_partialMatches)

section \<open>The matcher of index.js picks the first least candidate\<close>

lemma firstMinimal_snoc:
  "firstMinimal f (xs @ [x]) =
     (case firstMinimal f xs of
        None \<Rightarrow> Some x
      | Some m \<Rightarrow> if f x < f m then Some x else Some m)"
  by (induction xs) (auto split: option.splits)

lemma firstMinimal_None: "firstMinimal f xs = None \<longleftrightarrow> xs = []"
  by (cases xs) (auto split: option.splits)

lemma firstMinimal_decomp:
  "firstMinimal f xs = Some b \<Longrightarrow>
     \<exists>pre post. xs = pre @ b # post \<and> (\<forall>t\<in>set pre. f b < f t) \<and> (\<forall>t\<in>set post. f b \<le> f t)"
proof (induction xs arbitrary: b)
  case Nil
  then show ?case by simp
next
  case (Cons x xs)
  show ?case
  proof (cases "firstMinimal f xs")
    case None
    then have "xs = []" by (simp add: firstMinimal_None)
    with Cons.prems have "x # xs = [] @ b # []" by simp
    then show ?thesis by fastforce
  next
    case (Some m)
    from Cons.IH [OF Some] obtain pre post where
      d: "xs = pre @ m # post" "\<forall>t\<in>set pre. f m < f t" "\<forall>t\<in>set post. f m \<le> f t"
      by blast
    show ?thesis
    proof (cases "f x \<le> f m")
      case True
      with Some Cons.prems have "b = x" by simp
      moreover have "\<forall>t\<in>set xs. f x \<le> f t"
        using d True by auto
      ultimately have "x # xs = [] @ b # xs \<and> (\<forall>t\<in>set []. f b < f t) \<and> (\<forall>t\<in>set xs. f b \<le> f t)"
        by simp
      then show ?thesis by blast
    next
      case False
      with Some Cons.prems have "b = m" by simp
      with d False have "x # xs = (x # pre) @ b # post \<and> (\<forall>t\<in>set (x # pre). f b < f t)
          \<and> (\<forall>t\<in>set post. f b \<le> f t)"
        by auto
      then show ?thesis by blast
    qed
  qed
qed

lemma firstMinimal_mem: "firstMinimal f xs = Some b \<Longrightarrow> b \<in> set xs"
  by (drule firstMinimal_decomp) auto

lemma compareStep_count:
  "fst p = length (snd p) \<Longrightarrow> fst (compareStep g t gc tc i p) = length (snd (compareStep g t gc tc i p))"
  by (cases p) (simp add: compareStep_def Let_def)

lemma compareRows_count:
  "fst (compareRows g t gc tc) = length (snd (compareRows g t gc tc))"
  unfolding compareRows_def
  by (rule fold_invariant [where I = "\<lambda>p. fst p = length (snd p)"])
     (simp_all add: compareStep_count)

lemma scanStep_candidate:
  "scanStep g gc tc mT t (bm, bd, cols) =
     (if isCandidate g gc tc mT t \<and> countOf g gc tc t < bd
      then (Some t, countOf g gc tc t, snd (compareRows g t gc tc))
      else (bm, bd, cols))"
  by (auto simp: scanStep_def isCandidate_def countOf_def split: prod.splits)

lemma findBest_firstMinimal:
  "findBest g T gc tc mT =
     (case firstMinimal (countOf g gc tc) (filter (isCandidate g gc tc mT) T) of
        None \<Rightarrow> (None, 999, [])
      | Some b \<Rightarrow> (Some b, countOf g gc tc b, snd (compareRows g b gc tc)))"
  unfolding findBest_def
proof (induction T rule: rev_induct)
  case Nil
  show ?case by simp
next
  case (snoc t T)
  show ?case
  proof (cases "firstMinimal (countOf g gc tc) (filter (isCandidate g gc tc mT) T)")
    case None
    have "isCandidate g gc tc mT t \<Longrightarrow> countOf g gc tc t < 999"
      by (simp add: isCandidate_def)
    with None snoc show ?thesis
      by (auto simp: scanStep_candidate firstMinimal_snoc)
  next
    case (Some b)
    with snoc show ?thesis
      by (auto simp: scanStep_candidate firstMinimal_snoc)
  qed
qed

lemma classify_fields:
  "gst (classify g b n cols) = g"
  "tally (classify g b n cols) = b"
  "discrepancies (classify g b n cols) = n"
  "discrepancyColumns (classify g b n cols) = cols"
  by (simp_all add: classify_def split: prod.splits)

lemma classify_classified: "classified (classify g b n cols)"
  by (simp add: classified_def classify_fields)

lemma routeStep_firstMinimal:
  "routeStep T gc tc g (pms, mG, mT) =
     (if getField g ''id'' \<in> mG then (pms, mG, mT)
      else (case firstMinimal (countOf g gc tc) (filter (isCandidate g gc tc mT) T) of
              None \<Rightarrow> (pms, mG, mT)
            | Some best \<Rightarrow>
                (pms @ [classify g best (countOf g gc tc best) (snd (compareRows g best gc tc))],
                 insert (getField g ''id'') mG, insert (getField best ''id'') mT)))"
proof (cases "firstMinimal (countOf g gc tc) (filter (isCandidate g gc tc mT) T)")
  case None
  then show ?thesis
    by (simp add: routeStep_def findBest_firstMinimal)
next
  case (Some best)
  then have "best \<in> set (filter (isCandidate g gc tc mT) T)"
    by (rule firstMinimal_mem)
  then have "countOf g gc tc best \<le> 3"
    by (simp add: isCandidate_def)
  with Some show ?thesis
    by (simp add: routeStep_def findBest_firstMinimal)
qed

lemma routeStep_entries:
  assumes "list_all (\<lambda>pm. withinBudget pm \<and> classified pm) (fst s)"
  shows "list_all (\<lambda>pm. withinBudget pm \<and> classified pm) (fst (routeStep T gc tc g s))"
proof -
  obtain pms mG mT where s: "s = (pms, mG, mT)"
    by (cases s) auto
  show ?thesis
  proof (cases "firstMinimal (countOf g gc tc) (filter (isCandidate g gc tc mT) T)")
    case None
    with assms s show ?thesis
      by (simp add: routeStep_firstMinimal)
  next
    case (Some best)
    then have "best \<in> set (filter (isCandidate g gc tc mT) T)"
      by (rule firstMinimal_mem)
    then have "1 \<le> countOf g gc tc best \<and> countOf g gc tc best \<le> 3"
      by (simp add: isCandidate_def)
    then have "withinBudget (classify g best (countOf g gc tc best) (snd (compareRows g best gc tc)))"
      by (simp add: withinBudget_def classify_fields countOf_def compareRows_count)
    with assms s Some show ?thesis
      by (simp add: routeStep_firstMinimal classify_classified)
  qed
qed

lemma routePartial_entries:
  "list_all (\<lambda>pm. withinBudget pm \<and> classified pm) (fst (routePartial F G T gc tc))"
proof -
  obtain mG mT where f: "fold trackExact F ({}, {}) = (mG, mT)"
    by (cases "fold trackExact F ({}, {})") auto
  have "list_all (\<lambda>pm. withinBudget pm \<and> classified pm)
          (fst (fold (routeStep T gc tc) G ([], mG, mT)))"
    by (rule fold_invariant
          [where I = "\<lambda>s. list_all (\<lambda>pm. withinBudget pm \<and> classified pm) (fst s)"])
       (simp_all add: routeStep_entries)
  with f show ?thesis by (simp add: routePartial_def)
qed

lemma floatLe_trans: "floatLe a b \<Longrightarrow> floatLe b c \<Longrightarrow> floatLe a c"
  by (cases a; cases b; cases c) auto

lemma floatLe_refl: "a \<noteq> NaN \<Longrightarrow> floatLe a a"
  by (cases a) auto

lemma floatLe_total: "a \<noteq> NaN \<Longrightarrow> b \<noteq> NaN \<Longrightarrow> floatLe a b \<or> floatLe b a"
  by (cases a; cases b) auto

lemma floatLe_numbers: "floatLe a b \<Longrightarrow> a \<noteq> NaN \<and> b \<noteq> NaN"
  by (cases a; cases b) auto

lemma floatLt_numbers: "floatLt a b \<Longrightarrow> a \<noteq> NaN \<and> b \<noteq> NaN"
  by (cases a; cases b) auto

lemma floatLt_le_trans: "floatLt a b \<Longrightarrow> floatLe b c \<Longrightarrow> floatLt a c"
  by (cases a; cases b; cases c) auto

lemma floatLt_not_le: "floatLt a b \<Longrightarrow> \<not> floatLe b a"
  by (cases a; cases b) auto

lemma floatLt_irrefl: "\<not> floatLt a a"
  by (cases a) auto

lemma floatAbs_nonneg: "floatAbs x = NaN \<or> floatLe (Num 0) (floatAbs x)"
  by (cases x) auto

lemma floatLe_zero_pos: "floatLe (Num 0) d \<Longrightarrow> d \<noteq> Num 0 \<Longrightarrow> floatLt (Num 0) d"
  by (cases d) auto

lemma floatMax_cases:
  assumes "m \<noteq> NaN" and "d \<noteq> NaN"
  shows "floatMax m d \<noteq> NaN" and "floatMax m d = m \<or> floatMax m d = d"
    and "floatLe m (floatMax m d)" and "floatLe d (floatMax m d)"
  using assms floatLe_total [of m d] floatLe_refl [of m] floatLe_refl [of d]
  by (auto simp: floatMax_def)

lemma severity_fold:
  "fold severityStep cols (h, m) =
     (h \<or> list_ex (floatLe (Num 1)) (monetaryDeltas cols),
      fold (\<lambda>d m. floatMax m d) (monetaryDeltas cols) m)"
  by (induction cols arbitrary: h m) (auto simp: severityStep_def monetaryDeltas_def Let_def)

lemma fold_floatMax_NaN:
  "m = NaN \<or> NaN \<in> set ds \<Longrightarrow> fold (\<lambda>d m. floatMax m d) ds m = NaN"
proof (induction ds arbitrary: m)
  case Nil
  then show ?case by simp
next
  case (Cons d ds)
  show ?case
  proof (cases "m = NaN \<or> d = NaN")
    case True
    then have "floatMax m d = NaN"
      by (auto simp: floatMax_def)
    then show ?thesis
      using Cons.IH [of "floatMax m d"] by simp
  next
    case False
    with Cons.prems have "NaN \<in> set ds" by auto
    then show ?thesis
      using Cons.IH [of "floatMax m d"] by simp
  qed
qed

lemma fold_floatMax_greatest:
  assumes "m \<noteq> NaN" and "NaN \<notin> set ds"
  shows "fold (\<lambda>d m. floatMax m d) ds m \<in> insert m (set ds)
     \<and> floatLe m (fold (\<lambda>d m. floatMax m d) ds m)
     \<and> (\<forall>d\<in>set ds. floatLe d (fold (\<lambda>d m. floatMax m d) ds m))"
  using assms
proof (induction ds arbitrary: m)
  case Nil
  then show ?case by (simp add: floatLe_refl)
next
  case (Cons d ds)
  let ?m' = "floatMax m d"
  let ?r = "fold (\<lambda>d m. floatMax m d) ds ?m'"
  from Cons.prems have d: "d \<noteq> NaN" and ds: "NaN \<notin> set ds"
    by auto
  note mx = floatMax_cases [OF Cons.prems(1) d]
  from Cons.IH [OF mx(1) ds]
  have r: "?r \<in> insert ?m' (set ds)" "floatLe ?m' ?r" "\<forall>x\<in>set ds. floatLe x ?r"
    by simp_all
  have "floatLe m ?r"
    by (rule floatLe_trans [OF mx(3) r(2)])
  moreover have "floatLe d ?r"
    by (rule floatLe_trans [OF mx(4) r(2)])
  moreover have "?r \<in> insert m (set (d # ds))"
    using r(1) mx(2) by auto
  ultimately show ?case
    using r(3) by simp
qed

lemma classify_severity:
  "maxDiscrepancy (classify g b n cols)
     = fold (\<lambda>d m. floatMax m d) (monetaryDeltas cols) (Num 0)"
  "isMinor (classify g b n cols) =
     (\<not> list_ex (floatLe (Num 1)) (monetaryDeltas cols)
      \<and> floatLt (Num 0) (fold (\<lambda>d m. floatMax m d) (monetaryDeltas cols) (Num 0)))"
  by (simp_all add: classify_def severity_fold)

lemma monetaryDeltas_nonneg:
  "d \<in> set (monetaryDeltas cols) \<Longrightarrow> d = NaN \<or> floatLe (Num 0) d"
  using floatAbs_nonneg by (auto simp: monetaryDeltas_def)

lemma take_length_prefix: "take (length t) s = t \<longleftrightarrow> (\<exists>ss. s = t @ ss)"
proof
  assume "take (length t) s = t"
  then have "s = t @ drop (length t) s"
    by (metis append_take_drop_id)
  then show "\<exists>ss. s = t @ ss" ..
next
  assume "\<exists>ss. s = t @ ss"
  then show "take (length t) s = t" by auto
qed

lemma includesStr_iff: "includesStr s t \<longleftrightarrow> (\<exists>ps ss. s = ps @ t @ ss)"
proof (induction s)
  case Nil
  show ?case by auto
next
  case (Cons c cs)
  show ?case
  proof
    assume "includesStr (c # cs) t"
    then consider "take (length t) (c # cs) = t" | "includesStr cs t"
      by auto
    then show "\<exists>ps ss. c # cs = ps @ t @ ss"
    proof cases
      case 1
      then obtain ss where "c # cs = t @ ss"
        using take_length_prefix [of t "c # cs"] by blast
      then have "c # cs = [] @ t @ ss" by simp
      then show ?thesis by blast
    next
      case 2
      with Cons.IH obtain ps ss where "cs = ps @ t @ ss" by blast
      then have "c # cs = (c # ps) @ t @ ss" by simp
      then show ?thesis by blast
    qed
  next
    assume "\<exists>ps ss. c # cs = ps @ t @ ss"
    then obtain ps ss where d: "c # cs = ps @ t @ ss" by blast
    show "includesStr (c # cs) t"
    proof (cases ps)
      case Nil
      with d have "take (length t) (c # cs) = t"
        using take_length_prefix [of t "c # cs"] by auto
      then show ?thesis by simp
    next
      case (Cons p ps')
      with d have "cs = ps' @ t @ ss" by simp
      with Cons.IH have "includesStr cs t" by blast
      then show ?thesis by simp
    qed
  qed
qed

lemma includesStr_suffix_part: "includesStr s (p @ f) \<Longrightarrow> includesStr s f"
proof -
  assume "includesStr s (p @ f)"
  then obtain ps ss where "s = ps @ (p @ f) @ ss"
    using includesStr_iff by blast
  then have "s = (ps @ p) @ f @ ss" by simp
  then show "includesStr s f"
    using includesStr_iff by blast
qed

lemma isTaxColumn_fragments:
  "isTaxColumn name \<longleftrightarrow>
     list_ex (includesStr (toLowerCase name))
       [''taxable_value'', ''igst'', ''cgst'', ''sgst'', ''integrated_tax'', ''central_tax'',
        ''state_ut_tax'']"
proof -
  have p: "\<And>f. includesStr (toLowerCase name) (''col_'' @ f) \<Longrightarrow> includesStr (toLowerCase name) f"
    by (rule includesStr_suffix_part)
  show ?thesis
    unfolding isTaxColumn_def taxColumns_def list_ex_iff
    using p [of "''taxable_value''"] p [of "''igst''"] p [of "''cgst''"] p [of "''sgst''"]
      p [of "''integrated_tax''"] p [of "''central_tax''"] p [of "''state_ut_tax''"]
    by auto
qed

lemma takeWhile_none: "\<forall>c\<in>set xs. \<not> P c \<Longrightarrow> takeWhile P xs = []"
  by (cases xs) auto

lemma parseFloat_no_digits:
  assumes "\<forall>c\<in>set s. \<not> isDigit c" and "CHR ''I'' \<notin> set s"
  shows "parseFloat s = NaN"
proof -
  let ?s1 = "dropWhile isSpace s"
  have tw: "\<And>x. set x \<subseteq> set s \<Longrightarrow> takeWhile isDigit x = []"
    using assms(1) by (intro takeWhile_none) blast
  have ni: "\<And>x. set x \<subseteq> set s \<Longrightarrow> take 8 x \<noteq> ''Infinity''"
  proof
    fix x
    assume x: "set x \<subseteq> set s" and "take 8 x = ''Infinity''"
    then have "CHR ''I'' \<in> set (take 8 x)"
      by simp
    then have "CHR ''I'' \<in> set x"
      by (rule in_set_takeD)
    with x assms(2) show False by blast
  qed
  have sub1: "set ?s1 \<subseteq> set s"
    by (rule set_dropWhileD [THEN subsetI])
  have subD: "\<And>x. set x \<subseteq> set s \<Longrightarrow> set (drop 1 x) \<subseteq> set s"
    using set_drop_subset by fastforce
  have subW: "\<And>x. set x \<subseteq> set s \<Longrightarrow> set (dropWhile isDigit x) \<subseteq> set s"
    using set_dropWhileD by fastforce
  note ipA = tw [OF sub1]
  note ipB = tw [OF subD [OF sub1]]
  note fpA = tw [OF subD [OF subW [OF sub1]]]
  note fpB = tw [OF subD [OF subW [OF subD [OF sub1]]]]
  note infA = ni [OF sub1]
  note infB = ni [OF subD [OF sub1]]
  show ?thesis
    unfolding parseFloat_def Let_def using ipA ipB fpA fpB infA infB by simp
qed

lemma isAmountChar_iff: "isAmountChar c \<longleftrightarrow> c \<in> set ''0123456789.-''"
  by (auto simp: isAmountChar_def isDigit_def)

lemma moneyOf_strip:
  "c \<notin> set ''0123456789.-'' \<Longrightarrow> moneyOf (a @ c # b) = moneyOf (a @ b)"
  by (simp add: moneyOf_def isAmountChar_iff)

lemma moneyOf_kept:
  assumes "set v \<subseteq> set ''0123456789.-''"
  shows "moneyOf v = floatOrZero (parseFloat v)"
proof -
  have "\<forall>c\<in>set v. isAmountChar c"
    using assms by (auto simp only: isAmountChar_iff)
  then have "filter isAmountChar v = v"
    by (simp add: filter_id_conv)
  then show ?thesis
    by (simp add: moneyOf_def)
qed

lemma moneyOf_no_digits:
  assumes "\<forall>c\<in>set v. c \<notin> set ''0123456789''"
  shows "moneyOf v = Num 0"
proof -
  have "\<forall>c\<in>set (filter isAmountChar v). \<not> isDigit c"
    using assms by (auto simp: isDigit_def)
  moreover have "CHR ''I'' \<notin> set (filter isAmountChar v)"
    by (simp add: isAmountChar_iff)
  ultimately have "parseFloat (filter isAmountChar v) = NaN"
    by (rule parseFloat_no_digits)
  then show ?thesis
    by (simp add: moneyOf_def floatOrZero_def)
qed

lemma isTaxColumn_iff:
  "isTaxColumn name \<longleftrightarrow>
     (\<exists>f\<in>set [''taxable_value'', ''igst'', ''cgst'', ''sgst'', ''integrated_tax'',
               ''central_tax'', ''state_ut_tax''].
        \<exists>pre post. toLowerCase name = pre @ f @ post)"
  unfolding isTaxColumn_fragments list_ex_iff includesStr_iff ..

lemma toLowerCase_append: "toLowerCase (s @ t) = toLowerCase s @ toLowerCase t"
  by (simp add: toLowerCase_def)

lemma toLowerCase_other:
  "c \<notin> set ''ABCDEFGHIJKLMNOPQRSTUVWXYZ'' \<Longrightarrow> toLowerCase [c] = [c]"
  by (auto simp: toLowerCase_def toLowerChar_def)

section \<open>Discrepancy counts of partial matches\<close>

text \<open>
  Claim C4, as stated, fails on \<open>reconcileData\<close>: with five mapped columns a pair that
  differs in four of them is emitted as a partial match.
\<close>

theorem partial_match_over_budget_counterexample:
  "map (length \<circ> matchEntry.discrepancies)
     (partialMatches (reconcileData [fiveRow ''1'' ''2'' ''3'' ''4'' ''5'']
        [fiveRow ''1'' ''x'' ''y'' ''z'' ''w''] fiveCols fiveCols))
   = [4]"
  by code_simp

text \<open>
  Claim C4, amended. Every entry of \<open>reconcileData\<close>'s \<open>partialMatches\<close> has at least one
  discrepancy and fewer discrepancies than there are GST columns (the guard
  \<open>discrepancies.length < gstColumns.length\<close>). Every entry of the \<open>partialMatches\<close> of the
  route /api/reconcile-mapped-data has between 1 and 3 discrepancies, and that count is
  the length of its list of discrepancy columns.
\<close>

theorem partial_match_discrepancy_bounds:
  "(\<forall>m\<in>set (partialMatches (reconcileData G T gc tc)).
      1 \<le> length (matchEntry.discrepancies m)
      \<and> length (matchEntry.discrepancies m) < length gc)
   \<and> (\<forall>pm\<in>set (fst (routePartial F G' T' gc' tc')).
      1 \<le> discrepancies pm \<and> discrepancies pm \<le> 3
      \<and> discrepancies pm = length (discrepancyColumns pm))"
proof -
  have "list_all (withinColumns gc) (partialMatches (reconcileData G T gc tc))"
    by (rule reconcileData_partial_bound)
  moreover have "list_all (\<lambda>pm. withinBudget pm \<and> classified pm) (fst (routePartial F G' T' gc' tc'))"
    by (rule routePartial_entries)
  ultimately show ?thesis
    by (auto simp: list_all_iff withinColumns_def withinBudget_def)
qed

theorem partial_match_discrepancy_bounds_witness:
  "length (matchEntry.discrepancies (hd (partialMatches (reconcileData
       [fiveRow ''1'' ''2'' ''3'' ''4'' ''5''] [fiveRow ''1'' ''x'' ''y'' ''z'' ''w'']
       fiveCols fiveCols)))) < 5
   \<and> discrepancies (hd (fst (routePartial [] [mappedRow 1 ''INV1'' ''100'']
       [mappedRow 1 ''INV1'' ''150''] mappedCols mappedCols))) \<le> 3"
proof -
  have ne1: "partialMatches (reconcileData
       [fiveRow ''1'' ''2'' ''3'' ''4'' ''5''] [fiveRow ''1'' ''x'' ''y'' ''z'' ''w'']
       fiveCols fiveCols) \<noteq> []"
    by code_simp
  have ne2: "fst (routePartial [] [mappedRow 1 ''INV1'' ''100'']
       [mappedRow 1 ''INV1'' ''150''] mappedCols mappedCols) \<noteq> []"
    by code_simp
  have len: "length fiveCols = 5"
    by (simp add: fiveCols_def)
  from partial_match_discrepancy_bounds
    [of "[fiveRow ''1'' ''2'' ''3'' ''4'' ''5'']" "[fiveRow ''1'' ''x'' ''y'' ''z'' ''w'']"
        fiveCols fiveCols "[]" "[mappedRow 1 ''INV1'' ''100'']" "[mappedRow 1 ''INV1'' ''150'']"
        mappedCols mappedCols]
  show ?thesis
    using hd_in_set [OF ne1] hd_in_set [OF ne2] len by auto
qed

section \<open>Choice of the partial match\<close>

text \<open>
  Claim C5, as stated, fails on \<open>reconcileData\<close>: its partial pass keeps no best
  candidate. GST row 0 is paired with Tally row 0 (two discrepancies) although Tally row 1
  differs in one column only, and then with Tally row 1 as well.
\<close>

theorem reconcileData_takes_non_minimal_candidate_counterexample:
  "map (\<lambda>m. (gstIndex m, tallyIndex m, length (matchEntry.discrepancies m)))
     (partialMatches (reconcileData [fiveRow ''1'' ''2'' ''3'' ''4'' ''5'']
        [fiveRow ''1'' ''2'' ''3'' ''x'' ''y'', fiveRow ''1'' ''2'' ''3'' ''4'' ''z'']
        fiveCols fiveCols))
   = [(0, 0, 2), (0, 1, 1)]"
  by code_simp

text \<open>
  Claim C5, amended to the matcher of the route /api/reconcile-mapped-data. One iteration
  of its outer loop (the loop is the fold of \<open>routeStep\<close> over the GST rows in their
  order) leaves the state alone when the GST row is consumed; otherwise it looks at the
  Tally rows that are not consumed and have 1 to 3 discrepancies, and picks among them
  the first one whose count is least: every candidate before it has a strictly greater
  count, every candidate after it a count at least as great. With no candidate the state
  is left alone.
\<close>

theorem route_picks_first_minimal_candidate:
  "routeStep tallyData gc tc gstRow (pms, matchedGst, matchedTally) =
     (if getField gstRow ''id'' \<in> matchedGst then (pms, matchedGst, matchedTally)
      else (case firstMinimal (countOf gstRow gc tc)
                  (filter (isCandidate gstRow gc tc matchedTally) tallyData) of
              None \<Rightarrow> (pms, matchedGst, matchedTally)
            | Some best \<Rightarrow>
                (pms @ [classify gstRow best (countOf gstRow gc tc best)
                          (snd (compareRows gstRow best gc tc))],
                 insert (getField gstRow ''id'') matchedGst,
                 insert (getField best ''id'') matchedTally)))
   \<and> (\<forall>best. firstMinimal (countOf gstRow gc tc)
                (filter (isCandidate gstRow gc tc matchedTally) tallyData) = Some best
        \<longrightarrow> (\<exists>pre post.
               filter (isCandidate gstRow gc tc matchedTally) tallyData = pre @ best # post
               \<and> (\<forall>t\<in>set pre. countOf gstRow gc tc best < countOf gstRow gc tc t)
               \<and> (\<forall>t\<in>set post. countOf gstRow gc tc best \<le> countOf gstRow gc tc t)))
   \<and> (firstMinimal (countOf gstRow gc tc)
         (filter (isCandidate gstRow gc tc matchedTally) tallyData) = None
        \<longleftrightarrow> filter (isCandidate gstRow gc tc matchedTally) tallyData = [])"
proof (intro conjI allI impI)
  show "routeStep tallyData gc tc gstRow (pms, matchedGst, matchedTally) =
     (if getField gstRow ''id'' \<in> matchedGst then (pms, matchedGst, matchedTally)
      else (case firstMinimal (countOf gstRow gc tc)
                  (filter (isCandidate gstRow gc tc matchedTally) tallyData) of
              None \<Rightarrow> (pms, matchedGst, matchedTally)
            | Some best \<Rightarrow>
                (pms @ [classify gstRow best (countOf gstRow gc tc best)
                          (snd (compareRows gstRow best gc tc))],
                 insert (getField gstRow ''id'') matchedGst,
                 insert (getField best ''id'') matchedTally)))"
    by (rule routeStep_firstMinimal)
next
  fix best
  assume "firstMinimal (countOf gstRow gc tc)
            (filter (isCandidate gstRow gc tc matchedTally) tallyData) = Some best"
  then show "\<exists>pre post.
               filter (isCandidate gstRow gc tc matchedTally) tallyData = pre @ best # post
               \<and> (\<forall>t\<in>set pre. countOf gstRow gc tc best < countOf gstRow gc tc t)
               \<and> (\<forall>t\<in>set post. countOf gstRow gc tc best \<le> countOf gstRow gc tc t)"
    by (rule firstMinimal_decomp)
next
  show "firstMinimal (countOf gstRow gc tc)
         (filter (isCandidate gstRow gc tc matchedTally) tallyData) = None
        \<longleftrightarrow> filter (isCandidate gstRow gc tc matchedTally) tallyData = []"
    by (rule firstMinimal_None)
qed

theorem route_picks_first_minimal_candidate_witness:
  "map (\<lambda>pm. (getField (tally pm) ''id'', discrepancies pm))
     (fst (routeStep
        [mappedRow 1 ''INV2'' ''200'', mappedRow 2 ''INV1'' ''150'', mappedRow 3 ''INV1'' ''175'']
        mappedCols mappedCols (mappedRow 1 ''INV1'' ''100'') ([], {}, {})))
   = [(JNum 2, 1)]"
proof -
  have ev: "map (\<lambda>pm. (getField (tally pm) ''id'', discrepancies pm))
     (fst (if getField (mappedRow 1 ''INV1'' ''100'') ''id'' \<in> {} then ([], {}, {})
      else (case firstMinimal (countOf (mappedRow 1 ''INV1'' ''100'') mappedCols mappedCols)
                  (filter (isCandidate (mappedRow 1 ''INV1'' ''100'') mappedCols mappedCols {})
                     [mappedRow 1 ''INV2'' ''200'', mappedRow 2 ''INV1'' ''150'',
                      mappedRow 3 ''INV1'' ''175'']) of
              None \<Rightarrow> ([], {}, {})
            | Some best \<Rightarrow>
                ([] @ [classify (mappedRow 1 ''INV1'' ''100'') best
                          (countOf (mappedRow 1 ''INV1'' ''100'') mappedCols mappedCols best)
                          (snd (compareRows (mappedRow 1 ''INV1'' ''100'') best mappedCols mappedCols))],
                 insert (getField (mappedRow 1 ''INV1'' ''100'') ''id'') {},
                 insert (getField best ''id'') {}))))
     = [(JNum 2, 1)]"
    by code_simp
  from route_picks_first_minimal_candidate
    [of "[mappedRow 1 ''INV2'' ''200'', mappedRow 2 ''INV1'' ''150'', mappedRow 3 ''INV1'' ''175'']"
        mappedCols mappedCols "mappedRow 1 ''INV1'' ''100''" "[]" "{}" "{}"]
  have "routeStep
        [mappedRow 1 ''INV2'' ''200'', mappedRow 2 ''INV1'' ''150'', mappedRow 3 ''INV1'' ''175'']
        mappedCols mappedCols (mappedRow 1 ''INV1'' ''100'') ([], {}, {}) =
     (if getField (mappedRow 1 ''INV1'' ''100'') ''id'' \<in> {} then ([], {}, {})
      else (case firstMinimal (countOf (mappedRow 1 ''INV1'' ''100'') mappedCols mappedCols)
                  (filter (isCandidate (mappedRow 1 ''INV1'' ''100'') mappedCols mappedCols {})
                     [mappedRow 1 ''INV2'' ''200'', mappedRow 2 ''INV1'' ''150'',
                      mappedRow 3 ''INV1'' ''175'']) of
              None \<Rightarrow> ([], {}, {})
            | Some best \<Rightarrow>
                ([] @ [classify (mappedRow 1 ''INV1'' ''100'') best
                          (countOf (mappedRow 1 ''INV1'' ''100'') mappedCols mappedCols best)
                          (snd (compareRows (mappedRow 1 ''INV1'' ''100'') best mappedCols mappedCols))],
                 insert (getField (mappedRow 1 ''INV1'' ''100'') ''id'') {},
                 insert (getField best ''id'') {})))"
    by (rule conjunct1)
  then show ?thesis
    using ev by (simp only:)
qed

section \<open>Severity of a partial match\<close>

text \<open>
  Claim C6. For every partial match of the route /api/reconcile-mapped-data, with the
  deltas being the absolute differences \<open>Math.abs(gstNum - tallyNum)\<close> over the
  discrepancies in tax columns: \<open>maxDiscrepancy\<close> is the greatest of 0 and the deltas (and
  \<open>NaN\<close> when a delta is \<open>NaN\<close>, which is what \<open>Math.max\<close> makes of it); a delta of 1 or
  more makes \<open>isMinor\<close> false; deltas all below 1 with one of them not 0 make it true;
  with no tax column among the discrepancies \<open>maxDiscrepancy\<close> is 0 and \<open>isMinor\<close> is
  false. A column is a tax column when its lower-cased name contains one of the seven
  fragments (the variants with the prefix \<open>col_\<close> add nothing); lower-casing turns the 26
  capital letters into the small ones and leaves every other character. An amount is
  parsed from what is left of the text when every character other than a digit, \<open>.\<close> and
  \<open>-\<close> has been removed, and is 0 when nothing numeric is left. The numbers are IEEE 754
  doubles: \<open>0.40\<close> is read as the double nearest to it, and a difference is rounded to
  the nearest double.
\<close>

theorem severity_of_partial_matches:
  "(\<forall>pm\<in>set (fst (routePartial F G T gc tc)).
      (NaN \<notin> set (monetaryDeltas (discrepancyColumns pm))
         \<longrightarrow> maxDiscrepancy pm \<in> insert (Num 0) (set (monetaryDeltas (discrepancyColumns pm)))
           \<and> floatLe (Num 0) (maxDiscrepancy pm)
           \<and> (\<forall>d\<in>set (monetaryDeltas (discrepancyColumns pm)). floatLe d (maxDiscrepancy pm)))
      \<and> (NaN \<in> set (monetaryDeltas (discrepancyColumns pm)) \<longrightarrow> maxDiscrepancy pm = NaN)
      \<and> ((\<exists>d\<in>set (monetaryDeltas (discrepancyColumns pm)). floatLe (Num 1) d) \<longrightarrow> \<not> isMinor pm)
      \<and> ((\<forall>d\<in>set (monetaryDeltas (discrepancyColumns pm)). floatLt d (Num 1))
           \<and> (\<exists>d\<in>set (monetaryDeltas (discrepancyColumns pm)). d \<noteq> Num 0) \<longrightarrow> isMinor pm)
      \<and> (monetaryDeltas (discrepancyColumns pm) = []
           \<longrightarrow> maxDiscrepancy pm = Num 0 \<and> \<not> isMinor pm))
   \<and> (\<forall>name. isTaxColumn name \<longleftrightarrow>
         (\<exists>f\<in>set [''taxable_value'', ''igst'', ''cgst'', ''sgst'', ''integrated_tax'',
                   ''central_tax'', ''state_ut_tax''].
            \<exists>pre post. toLowerCase name = pre @ f @ post))
   \<and> toLowerCase ''ABCDEFGHIJKLMNOPQRSTUVWXYZ'' = ''abcdefghijklmnopqrstuvwxyz''
   \<and> (\<forall>c. c \<notin> set ''ABCDEFGHIJKLMNOPQRSTUVWXYZ'' \<longrightarrow> toLowerCase [c] = [c])
   \<and> (\<forall>s t. toLowerCase (s @ t) = toLowerCase s @ toLowerCase t)
   \<and> (\<forall>a c b. c \<notin> set ''0123456789.-'' \<longrightarrow> moneyOf (a @ c # b) = moneyOf (a @ b))
   \<and> (\<forall>v. set v \<subseteq> set ''0123456789.-'' \<longrightarrow> moneyOf v = floatOrZero (parseFloat v))
   \<and> (\<forall>v. (\<forall>c\<in>set v. c \<notin> set ''0123456789'') \<longrightarrow> moneyOf v = Num 0)
   \<and> moneyOf ''INR 1,234.50'' = Num (2469 / 2)
   \<and> moneyOf ''-12.5 Dr'' = Num (- 25 / 2)
   \<and> moneyOf ''0.40'' = Num (3602879701896397 / 9007199254740992)"
proof (intro conjI ballI allI impI)
  fix pm
  assume "pm \<in> set (fst (routePartial F G T gc tc))"
  then have "classified pm"
    using routePartial_entries [of F G T gc tc] by (simp add: list_all_iff)
  then have c: "pm = classify (gst pm) (tally pm) (discrepancies pm) (discrepancyColumns pm)"
    by (simp add: classified_def)
  let ?D = "monetaryDeltas (discrepancyColumns pm)"
  let ?r = "fold (\<lambda>d m. floatMax m d) ?D (Num 0)"
  have mx: "maxDiscrepancy pm = ?r"
    by (subst c) (simp add: classify_severity)
  have mi: "isMinor pm = (\<not> list_ex (floatLe (Num 1)) ?D \<and> floatLt (Num 0) ?r)"
    by (subst c) (simp add: classify_severity)
  have gr: "?r \<in> insert (Num 0) (set ?D) \<and> floatLe (Num 0) ?r \<and> (\<forall>d\<in>set ?D. floatLe d ?r)"
    if "NaN \<notin> set ?D"
    using that by (intro fold_floatMax_greatest) simp_all
  show "maxDiscrepancy pm \<in> insert (Num 0) (set ?D)" if "NaN \<notin> set ?D"
    using gr [OF that] unfolding mx by blast
  show "floatLe (Num 0) (maxDiscrepancy pm)" if "NaN \<notin> set ?D"
    using gr [OF that] unfolding mx by blast
  show "floatLe d (maxDiscrepancy pm)" if "NaN \<notin> set ?D" and "d \<in> set ?D" for d
    using gr [OF that(1)] that(2) unfolding mx by blast
  show "maxDiscrepancy pm = NaN" if "NaN \<in> set ?D"
    using that unfolding mx by (simp add: fold_floatMax_NaN)
  show "\<not> isMinor pm" if "\<exists>d\<in>set ?D. floatLe (Num 1) d"
    using that mi by (simp add: list_ex_iff)
  show "isMinor pm" if h: "(\<forall>d\<in>set ?D. floatLt d (Num 1)) \<and> (\<exists>d\<in>set ?D. d \<noteq> Num 0)"
  proof -
    from h have nn: "NaN \<notin> set ?D"
      using floatLt_numbers by blast
    from h have small: "\<not> list_ex (floatLe (Num 1)) ?D"
      using floatLt_not_le by (auto simp: list_ex_iff)
    from h obtain d where d: "d \<in> set ?D" "d \<noteq> Num 0"
      by blast
    from d(1) nn have "d \<noteq> NaN" by auto
    with monetaryDeltas_nonneg [OF d(1)] have "floatLe (Num 0) d"
      by simp
    then have "floatLt (Num 0) d"
      using d(2) by (rule floatLe_zero_pos)
    moreover have "floatLe d ?r"
      using gr [OF nn] d(1) by blast
    ultimately have "floatLt (Num 0) ?r"
      by (rule floatLt_le_trans)
    with small show ?thesis
      using mi by simp
  qed
  show "maxDiscrepancy pm = Num 0" if "?D = []"
    using that mx by simp
  show "\<not> isMinor pm" if "?D = []"
    using that mi by simp
next
  fix name
  show "isTaxColumn name \<longleftrightarrow>
         (\<exists>f\<in>set [''taxable_value'', ''igst'', ''cgst'', ''sgst'', ''integrated_tax'',
                   ''central_tax'', ''state_ut_tax''].
            \<exists>pre post. toLowerCase name = pre @ f @ post)"
    by (rule isTaxColumn_iff)
next
  show "toLowerCase ''ABCDEFGHIJKLMNOPQRSTUVWXYZ'' = ''abcdefghijklmnopqrstuvwxyz''"
    by code_simp
next
  fix c :: char
  assume "c \<notin> set ''ABCDEFGHIJKLMNOPQRSTUVWXYZ''"
  then show "toLowerCase [c] = [c]"
    by (rule toLowerCase_other)
next
  fix s t
  show "toLowerCase (s @ t) = toLowerCase s @ toLowerCase t"
    by (rule toLowerCase_append)
next
  fix a b :: string and c :: char
  assume "c \<notin> set ''0123456789.-''"
  then show "moneyOf (a @ c # b) = moneyOf (a @ b)"
    by (rule moneyOf_strip)
next
  fix v :: string
  assume "set v \<subseteq> set ''0123456789.-''"
  then show "moneyOf v = floatOrZero (parseFloat v)"
    by (rule moneyOf_kept)
next
  fix v :: string
  assume "\<forall>c\<in>set v. c \<notin> set ''0123456789''"
  then show "moneyOf v = Num 0"
    by (rule moneyOf_no_digits)
next
  show "moneyOf ''INR 1,234.50'' = Num (2469 / 2)"
    by code_simp
next
  show "moneyOf ''-12.5 Dr'' = Num (- 25 / 2)"
    by code_simp
next
  show "moneyOf ''0.40'' = Num (3602879701896397 / 9007199254740992)"
    by code_simp
qed

theorem severity_of_partial_matches_witness:
  "isMinor (hd (fst (routePartial [] [mappedRow 1 ''INV1'' ''100'']
       [mappedRow 1 ''INV1'' ''100.50''] mappedCols mappedCols)))
   \<and> maxDiscrepancy (hd (fst (routePartial [] [mappedRow 1 ''INV1'' ''100'']
       [mappedRow 1 ''INV1'' ''100.50''] mappedCols mappedCols))) = Num (1 / 2)
   \<and> \<not> isMinor (hd (fst (routePartial [] [mappedRow 1 ''INV1'' ''100'']
       [mappedRow 1 ''INV1'' ''150''] mappedCols mappedCols)))
   \<and> isMinor (hd (fst (routePartial [] [mappedRow 1 ''INV1'' ''0.40'']
       [mappedRow 1 ''INV1'' ''1.40''] mappedCols mappedCols)))
   \<and> maxDiscrepancy (hd (fst (routePartial [] [mappedRow 1 ''INV1'' ''0.40'']
       [mappedRow 1 ''INV1'' ''1.40''] mappedCols mappedCols)))
       = Num (9007199254740991 / 9007199254740992)
   \<and> maxDiscrepancy (hd (fst (routePartial [] [mappedRow 1 ''INV1'' ''1.10'']
       [mappedRow 1 ''INV1'' ''0.30''] mappedCols mappedCols)))
       = Num (3602879701896397 / 4503599627370496)
   \<and> moneyOf ''n/a'' = Num 0"
proof -
  let ?B = "fst (routePartial [] [mappedRow 1 ''INV1'' ''100'']
       [mappedRow 1 ''INV1'' ''100.50''] mappedCols mappedCols)"
  let ?C = "fst (routePartial [] [mappedRow 1 ''INV1'' ''100'']
       [mappedRow 1 ''INV1'' ''150''] mappedCols mappedCols)"
  let ?E = "fst (routePartial [] [mappedRow 1 ''INV1'' ''0.40'']
       [mappedRow 1 ''INV1'' ''1.40''] mappedCols mappedCols)"
  let ?R = "fst (routePartial [] [mappedRow 1 ''INV1'' ''1.10'']
       [mappedRow 1 ''INV1'' ''0.30''] mappedCols mappedCols)"
  let ?e = "Num (9007199254740991 / 9007199254740992)"
  let ?r = "Num (3602879701896397 / 4503599627370496)"
  have neB: "?B \<noteq> []" by code_simp
  have neC: "?C \<noteq> []" by code_simp
  have neE: "?E \<noteq> []" by code_simp
  have neR: "?R \<noteq> []" by code_simp
  have dB: "monetaryDeltas (discrepancyColumns (hd ?B)) = [Num (1 / 2)]" by code_simp
  have dC: "monetaryDeltas (discrepancyColumns (hd ?C)) = [Num 50]" by code_simp
  have dE: "monetaryDeltas (discrepancyColumns (hd ?E)) = [?e]" by code_simp
  have dR: "monetaryDeltas (discrepancyColumns (hd ?R)) = [?r]" by code_simp
  have nd: "\<forall>c\<in>set ''n/a''. c \<notin> set ''0123456789''" by simp
  note hB = severity_of_partial_matches
    [of "[]" "[mappedRow 1 ''INV1'' ''100'']" "[mappedRow 1 ''INV1'' ''100.50'']" mappedCols mappedCols,
     THEN conjunct1, THEN bspec, OF hd_in_set [OF neB], unfolded dB]
  note hC = severity_of_partial_matches
    [of "[]" "[mappedRow 1 ''INV1'' ''100'']" "[mappedRow 1 ''INV1'' ''150'']" mappedCols mappedCols,
     THEN conjunct1, THEN bspec, OF hd_in_set [OF neC], unfolded dC]
  note hE = severity_of_partial_matches
    [of "[]" "[mappedRow 1 ''INV1'' ''0.40'']" "[mappedRow 1 ''INV1'' ''1.40'']" mappedCols mappedCols,
     THEN conjunct1, THEN bspec, OF hd_in_set [OF neE], unfolded dE]
  note hR = severity_of_partial_matches
    [of "[]" "[mappedRow 1 ''INV1'' ''1.10'']" "[mappedRow 1 ''INV1'' ''0.30'']" mappedCols mappedCols,
     THEN conjunct1, THEN bspec, OF hd_in_set [OF neR], unfolded dR]
  note hM = severity_of_partial_matches
    [of "[]" "[]" "[]" "[]" "[]", THEN conjunct2, THEN conjunct2, THEN conjunct2,
     THEN conjunct2, THEN conjunct2, THEN conjunct2, THEN conjunct2, THEN conjunct1,
     THEN spec, of "''n/a''"]
  have B1: "isMinor (hd ?B)"
    using hB by simp
  have B2: "maxDiscrepancy (hd ?B) = Num (1 / 2)"
    using hB by auto
  have C: "\<not> isMinor (hd ?C)"
    using hC by simp
  have E1: "isMinor (hd ?E)"
    using hE by simp
  have E2: "maxDiscrepancy (hd ?E) = ?e"
    using hE by auto
  have R: "maxDiscrepancy (hd ?R) = ?r"
    using hR by auto
  have M: "moneyOf ''n/a'' = Num 0"
    using hM nd by blast
  from B1 B2 C E1 E2 R M show ?thesis by blast
qed

section \<open>The exact pass\<close>





































section \<open>Exact matches and the relational formulation\<close>















text \<open>
  The joined key does not tell tuples apart when a text contains the separator: the rows
  below are different rows of the mapped tables and have the same key, and
  \<open>reconcileData\<close> matches them.
\<close>

lemma separator_collision_example:
  "length (exactMatches (reconcileData [invoiceRow ''x|y'' ''z''] [invoiceRow ''x'' ''y|z'']
      invoiceCols invoiceCols)) = 1
   \<and> innerJoinExact [invoiceRow ''x|y'' ''z''] [invoiceRow ''x'' ''y|z'']
      invoiceCols invoiceCols = Some []"
  by code_simp



end
